theory Spec2Isabelle
  imports Main "HOL-Library.Sublist"
begin

section \<open>JavaScript strings\<close>

text \<open>
  Strings are character lists. The string methods the sources call are written out:
  \<open>indexOf\<close> gives the position of the first occurrence or \<open>-1\<close>, \<open>substring\<close>
  clamps both positions to the string and swaps them when they are out of order.
\<close>

fun indexOf :: "string \<Rightarrow> string \<Rightarrow> int" where
  "indexOf [] pat = (if pat = [] then 0 else - 1)"
| "indexOf (c # cs) pat =
     (if prefix pat (c # cs) then 0
      else (let r = indexOf cs pat in if r < 0 then - 1 else r + 1))"

definition substring :: "string \<Rightarrow> int \<Rightarrow> int \<Rightarrow> string" where
  "substring s start stop =
     (let n = int (length s);
          a = max 0 (min start n);
          b = max 0 (min stop n);
          lo = min a b;
          hi = max a b
      in take (nat (hi - lo)) (drop (nat lo) s))"

definition includes_str :: "string \<Rightarrow> string \<Rightarrow> bool" where
  "includes_str s pat = (0 \<le> indexOf s pat)"


section \<open>Soap.js: encodeXml\<close>

text \<open>
  \<open>xmlData.replace(/[<>&'"]/g, singleChar => switch ...)\<close>: the global replace walks
  the string once; a character of the class is replaced by what the switch returns,
  any other character is kept. The switch has no default branch, so a character
  outside its five cases would give \<open>undefined\<close>, which replace writes as text.
\<close>

definition apostrophe :: char where
  "apostrophe = CHR 0x27"

definition doubleQuote :: char where
  "doubleQuote = CHR 0x22"

definition xmlSpecial :: "char \<Rightarrow> bool" where
  "xmlSpecial c = (c = CHR ''<'' \<or> c = CHR ''>'' \<or> c = CHR ''&'' \<or> c = apostrophe \<or> c = doubleQuote)"

definition xmlEntity :: "char \<Rightarrow> string" where
  "xmlEntity c =
     (if c = CHR ''<'' then ''&lt;''
      else if c = CHR ''>'' then ''&gt;''
      else if c = CHR ''&'' then ''&amp;''
      else if c = apostrophe then ''&apos;''
      else if c = doubleQuote then ''&quot;''
      else ''undefined'')"

fun encodeXml :: "string \<Rightarrow> string" where
  "encodeXml [] = []"
| "encodeXml (c # cs) = (if xmlSpecial c then xmlEntity c else [c]) @ encodeXml cs"

section \<open>Sonos-Commands.js: getMusicServiceId\<close>

text \<open>
  The guard \<open>isTruthyAndNotEmptyString(xuri)\<close> is, on a string, the test that the
  string is not empty. \<open>'$sid='.length\<close> is 5.
\<close>

definition getMusicServiceId :: "string \<Rightarrow> string" where
  "getMusicServiceId xuri =
     (if xuri \<noteq> [] then
        (let positionStart = indexOf xuri ''?sid='' + int (length ''$sid='');
             positionEnd = indexOf xuri ''&flags=''
         in if positionStart > 1 \<and> positionEnd > positionStart
            then substring xuri positionStart positionEnd
            else [])
      else [])"

section \<open>Errors\<close>

text \<open>
  Every \<open>throw new Error(NRCSP_ERRORPREFIX + text)\<close> of the sources is \<open>Nrcsp text\<close>.
  \<open>TypeError\<close> is what JavaScript raises when a property of \<open>undefined\<close> is read,
  \<open>InvalidURL\<close> what \<open>new URL\<close> raises, \<open>XmlError\<close> what the XML parser raises,
  and \<open>Rejected\<close> a rejected promise of a player call.
\<close>

datatype error = Nrcsp string | TypeError | InvalidURL | XmlError | Rejected

section \<open>Group topology\<close>

text \<open>
  The reply of \<open>getAllGroups\<close>: an array of groups, each with the coordinator's unique id,
  the group's host and port, and its members. A member's \<open>Invisible\<close> attribute is
  optional; when present it is a string.
\<close>

record zoneGroupMember =
  ZoneName :: string
  UUID :: string
  Location :: string
  Invisible :: "string option"

record zoneGroup =
  Coordinator :: string
  host :: string
  port :: string
  ID :: string
  Name :: string
  ZoneGroupMember :: "zoneGroupMember list"

datatype allGroups = GroupsUndefined | GroupsNotArray | Groups "zoneGroup list"

text \<open>
  \<open>new URL(location)\<close> is the platform's parser: it is a parameter \<open>newURL\<close> of the
  functions below, \<open>None\<close> where the constructor throws.
\<close>

record url =
  hostname :: string
  urlport :: string

record memberSimple =
  urlHostname :: string
  urlPort :: string
  baseUrl :: string

text \<open>
  The objects \<open>sortedGroupArray\<close> builds. The entry pushed first has no \<open>sonosName\<close>,
  \<open>uuid\<close> or \<open>invisible\<close> property until a member at the group's host fills them in:
  an absent property is \<open>None\<close>.
\<close>

record member = memberSimple +
  sonosName :: "string option"
  uuid :: "string option"
  invisible :: "bool option"

record player = member +
  isCoordinator :: bool
  groupIndex :: nat

record groupMemberData =
  playerIndex :: int
  members :: "member list"
  groupId :: string
  groupName :: string

definition truthy :: "string option \<Rightarrow> bool" where
  "truthy v = (case v of None \<Rightarrow> False | Some s \<Rightarrow> s \<noteq> [])"

definition httpUrl :: "string \<Rightarrow> string \<Rightarrow> string" where
  "httpUrl h p = ''http://'' @ h @ '':'' @ p"

fun findIndex :: "('a \<Rightarrow> bool) \<Rightarrow> 'a list \<Rightarrow> int" where
  "findIndex P [] = - 1"
| "findIndex P (x # xs) =
     (if P x then 0 else (let r = findIndex P xs in if r < 0 then - 1 else r + 1))"

text \<open>The member loop of \<open>sortedGroupArray\<close>; \<open>acc\<close> is the array \<open>members\<close>.\<close>

fun sortMembers ::
  "(string \<Rightarrow> url option) \<Rightarrow> string \<Rightarrow> zoneGroupMember list \<Rightarrow> member list \<Rightarrow> error + member list"
where
  "sortMembers newURL coordinatorUrlHostname [] acc = Inr acc"
| "sortMembers newURL coordinatorUrlHostname (m # ms) acc =
     (case newURL (Location m) of
        None \<Rightarrow> Inl InvalidURL
      | Some memberUrl \<Rightarrow>
          (let invisible = (if truthy (Invisible m) then Invisible m = Some ''1'' else False)
           in if hostname memberUrl \<noteq> coordinatorUrlHostname
              then sortMembers newURL coordinatorUrlHostname ms
                     (acc @ [\<lparr>urlHostname = hostname memberUrl,
                              urlPort = urlport memberUrl,
                              baseUrl = httpUrl (hostname memberUrl) (urlport memberUrl),
                              sonosName = Some (ZoneName m),
                              uuid = Some (UUID m),
                              invisible = Some invisible\<rparr>])
              else sortMembers newURL coordinatorUrlHostname ms
                     (acc[0 := (acc ! 0)\<lparr>sonosName := Some (ZoneName m),
                                          uuid := Some (UUID m),
                                          invisible := Some invisible\<rparr>])))"

definition sortedGroupArray ::
  "(string \<Rightarrow> url option) \<Rightarrow> zoneGroup list \<Rightarrow> int \<Rightarrow> error + member list"
where
  "sortedGroupArray newURL allGroupsData gi =
     (if gi < 0 \<or> gi \<ge> int (length allGroupsData)
      then Inl (Nrcsp ''index is out of range'')
      else
        (let g = allGroupsData ! nat gi;
             coordinatorUrlHostname = host g
         in sortMembers newURL coordinatorUrlHostname (ZoneGroupMember g)
              [\<lparr>urlHostname = coordinatorUrlHostname,
                urlPort = port g,
                baseUrl = httpUrl coordinatorUrlHostname (port g),
                sonosName = None, uuid = None, invisible = None\<rparr>]))"

text \<open>
  The search of \<open>getGroupMemberDataV2\<close>. The inner loop gives the hostname of the first
  matching member of one group (the \<open>break\<close>), the outer loop the index of the first
  group with a match. \<open>playerName\<close> is \<open>None\<close> when the argument is not given;
  \<open>searchByName\<close> is \<open>isTruthyAndNotEmptyString(playerName)\<close>.
\<close>

fun findMember ::
  "(string \<Rightarrow> url option) \<Rightarrow> string \<Rightarrow> string option \<Rightarrow> bool \<Rightarrow> zoneGroupMember list
     \<Rightarrow> error + string option"
where
  "findMember newURL sonosPlayerHost playerName searchByName [] = Inr None"
| "findMember newURL sonosPlayerHost playerName searchByName (m # ms) =
     (let visible = \<not> truthy (Invisible m)
      in if searchByName then
           (if Some (ZoneName m) = playerName \<and> visible then
              (case newURL (Location m) of
                 None \<Rightarrow> Inl InvalidURL
               | Some playerUrl \<Rightarrow> Inr (Some (hostname playerUrl)))
            else findMember newURL sonosPlayerHost playerName searchByName ms)
         else
           (case newURL (Location m) of
              None \<Rightarrow> Inl InvalidURL
            | Some playerUrl \<Rightarrow>
                if hostname playerUrl = sonosPlayerHost \<and> visible
                then Inr (Some (hostname playerUrl))
                else findMember newURL sonosPlayerHost playerName searchByName ms))"

fun findGroup ::
  "(string \<Rightarrow> url option) \<Rightarrow> string \<Rightarrow> string option \<Rightarrow> bool \<Rightarrow> zoneGroup list \<Rightarrow> nat
     \<Rightarrow> error + (nat \<times> string) option"
where
  "findGroup newURL sonosPlayerHost playerName searchByName [] gi = Inr None"
| "findGroup newURL sonosPlayerHost playerName searchByName (g # gs) gi =
     (case findMember newURL sonosPlayerHost playerName searchByName (ZoneGroupMember g) of
        Inl e \<Rightarrow> Inl e
      | Inr (Some usedPlayerHostname) \<Rightarrow> Inr (Some (gi, usedPlayerHostname))
      | Inr None \<Rightarrow> findGroup newURL sonosPlayerHost playerName searchByName gs (Suc gi))"

definition getGroupMemberDataV2 ::
  "(string \<Rightarrow> url option) \<Rightarrow> allGroups \<Rightarrow> string \<Rightarrow> string option \<Rightarrow> error + groupMemberData"
where
  "getGroupMemberDataV2 newURL allGroupsData sonosPlayerHost playerName =
     (let searchByName = (case playerName of None \<Rightarrow> False | Some n \<Rightarrow> n \<noteq> [])
      in case allGroupsData of
           GroupsUndefined \<Rightarrow> Inl (Nrcsp ''all groups data undefined'')
         | GroupsNotArray \<Rightarrow> Inl (Nrcsp ''all groups data is not array'')
         | Groups gs \<Rightarrow>
             (case findGroup newURL sonosPlayerHost playerName searchByName gs 0 of
                Inl e \<Rightarrow> Inl e
              | Inr None \<Rightarrow>
                  Inl (Nrcsp ''could not find given player (must be visible) in any group'')
              | Inr (Some (playerGroupIndex, usedPlayerHostname)) \<Rightarrow>
                  (case sortedGroupArray newURL gs (int playerGroupIndex) of
                     Inl e \<Rightarrow> Inl e
                   | Inr sortedMembers \<Rightarrow>
                       (let ms = filter (\<lambda>mb. invisible mb = Some False) sortedMembers
                        in Inr \<lparr>playerIndex =
                                   findIndex (\<lambda>mb. urlHostname mb = usedPlayerHostname) ms,
                                 members = ms,
                                 groupId = ID (gs ! playerGroupIndex),
                                 groupName = Name (gs ! playerGroupIndex)\<rparr>))))"

text \<open>
  \<open>getAllPlayerList\<close>: \<open>visible\<close> starts as \<open>true\<close> and, when the member has an
  \<open>Invisible\<close> property, becomes the value of that property; the \<open>if (visible)\<close> then
  tests its truthiness. The objects pushed have no \<open>invisible\<close> property.
\<close>

fun groupPlayers ::
  "(string \<Rightarrow> url option) \<Rightarrow> zoneGroup \<Rightarrow> nat \<Rightarrow> zoneGroupMember list \<Rightarrow> player list
     \<Rightarrow> error + player list"
where
  "groupPlayers newURL g gi [] playerList = Inr playerList"
| "groupPlayers newURL g gi (m # ms) playerList =
     (let visible = (case Invisible m of None \<Rightarrow> True | Some v \<Rightarrow> truthy (Some v))
      in if visible then
           (case newURL (Location m) of
              None \<Rightarrow> Inl InvalidURL
            | Some playerUrl \<Rightarrow>
                groupPlayers newURL g gi ms
                  (playerList @
                     [\<lparr>urlHostname = hostname playerUrl,
                       urlPort = urlport playerUrl,
                       baseUrl = httpUrl (hostname playerUrl) (urlport playerUrl),
                       sonosName = Some (ZoneName m),
                       uuid = Some (UUID m),
                       invisible = None,
                       isCoordinator = (Coordinator g = UUID m),
                       groupIndex = gi\<rparr>]))
         else groupPlayers newURL g gi ms playerList)"

fun allPlayers ::
  "(string \<Rightarrow> url option) \<Rightarrow> zoneGroup list \<Rightarrow> nat \<Rightarrow> player list \<Rightarrow> error + player list"
where
  "allPlayers newURL [] gi playerList = Inr playerList"
| "allPlayers newURL (g # gs) gi playerList =
     (case groupPlayers newURL g gi (ZoneGroupMember g) playerList of
        Inl e \<Rightarrow> Inl e
      | Inr playerList' \<Rightarrow> allPlayers newURL gs (Suc gi) playerList')"

definition getAllPlayerList :: "(string \<Rightarrow> url option) \<Rightarrow> allGroups \<Rightarrow> error + player list" where
  "getAllPlayerList newURL allGroupsData =
     (case allGroupsData of
        GroupsUndefined \<Rightarrow> Inl (Nrcsp ''all groups data undefined'')
      | GroupsNotArray \<Rightarrow> Inl (Nrcsp ''all groups data is not array'')
      | Groups gs \<Rightarrow> allPlayers newURL gs 0 [])"

section \<open>Example topologies\<close>

text \<open>
  Two players at addresses 192.168.1.2 and 192.168.1.3. In \<open>pairGroup\<close> the
  coordinator is visible and the second member is the hidden half of a stereo pair; in
  \<open>hiddenCoordinatorGroup\<close> the coordinator itself carries the invisible flag. In
  \<open>mismatchGroup\<close> both members are visible and the group's host is the address of the
  member that is not the declared coordinator; in \<open>strayHostGroup\<close> the group's host is
  the address of none of its members.
\<close>

definition exampleURL :: "string \<Rightarrow> url option" where
  "exampleURL l =
     (if l = ''http://192.168.1.2:1400/xml/device_description.xml''
      then Some \<lparr>hostname = ''192.168.1.2'', urlport = ''1400''\<rparr>
      else if l = ''http://192.168.1.3:1400/xml/device_description.xml''
      then Some \<lparr>hostname = ''192.168.1.3'', urlport = ''1400''\<rparr>
      else None)"

definition pairGroup :: zoneGroup where
  "pairGroup =
     \<lparr>Coordinator = ''RINCON_A'', host = ''192.168.1.2'', port = ''1400'',
      ID = ''RINCON_A:1'', Name = ''Living'',
      ZoneGroupMember =
        [\<lparr>ZoneName = ''Living'', UUID = ''RINCON_A'',
          Location = ''http://192.168.1.2:1400/xml/device_description.xml'',
          Invisible = None\<rparr>,
         \<lparr>ZoneName = ''Living'', UUID = ''RINCON_B'',
          Location = ''http://192.168.1.3:1400/xml/device_description.xml'',
          Invisible = Some ''1''\<rparr>]\<rparr>"

definition hiddenCoordinatorGroup :: zoneGroup where
  "hiddenCoordinatorGroup =
     \<lparr>Coordinator = ''RINCON_A'', host = ''192.168.1.2'', port = ''1400'',
      ID = ''RINCON_A:1'', Name = ''Living'',
      ZoneGroupMember =
        [\<lparr>ZoneName = ''Living'', UUID = ''RINCON_A'',
          Location = ''http://192.168.1.2:1400/xml/device_description.xml'',
          Invisible = Some ''1''\<rparr>,
         \<lparr>ZoneName = ''Kitchen'', UUID = ''RINCON_B'',
          Location = ''http://192.168.1.3:1400/xml/device_description.xml'',
          Invisible = None\<rparr>]\<rparr>"

definition mismatchGroup :: zoneGroup where
  "mismatchGroup =
     \<lparr>Coordinator = ''RINCON_A'', host = ''192.168.1.3'', port = ''1400'',
      ID = ''RINCON_A:1'', Name = ''Living'',
      ZoneGroupMember =
        [\<lparr>ZoneName = ''Living'', UUID = ''RINCON_A'',
          Location = ''http://192.168.1.2:1400/xml/device_description.xml'',
          Invisible = None\<rparr>,
         \<lparr>ZoneName = ''Kitchen'', UUID = ''RINCON_B'',
          Location = ''http://192.168.1.3:1400/xml/device_description.xml'',
          Invisible = None\<rparr>]\<rparr>"

definition strayHostGroup :: zoneGroup where
  "strayHostGroup =
     \<lparr>Coordinator = ''RINCON_A'', host = ''192.168.1.9'', port = ''1400'',
      ID = ''RINCON_A:1'', Name = ''Living'',
      ZoneGroupMember =
        [\<lparr>ZoneName = ''Kitchen'', UUID = ''RINCON_B'',
          Location = ''http://192.168.1.3:1400/xml/device_description.xml'',
          Invisible = None\<rparr>,
         \<lparr>ZoneName = ''Living'', UUID = ''RINCON_A'',
          Location = ''http://192.168.1.2:1400/xml/device_description.xml'',
          Invisible = None\<rparr>]\<rparr>"

section \<open>Auxiliary notions for the statements\<close>

text \<open>
  The members of a group listed at the group's own host: \<open>sortedGroupArray\<close> takes the
  name, unique id and visibility of its first entry from the last of them.
\<close>

definition coordinatorEntries ::
  "(string \<Rightarrow> url option) \<Rightarrow> string \<Rightarrow> zoneGroupMember list \<Rightarrow> zoneGroupMember list"
where
  "coordinatorEntries newURL h ms =
     filter (\<lambda>m. case newURL (Location m) of None \<Rightarrow> False | Some u \<Rightarrow> hostname u = h) ms"

definition coordinatorVisible :: "(string \<Rightarrow> url option) \<Rightarrow> zoneGroup \<Rightarrow> bool" where
  "coordinatorVisible newURL g =
     (let ces = coordinatorEntries newURL (host g) (ZoneGroupMember g)
      in ces \<noteq> [] \<and> UUID (last ces) = Coordinator g \<and> Invisible (last ces) \<noteq> Some ''1'')"

text \<open>What a member listed at the group's host writes into the first entry.\<close>

definition asCoordinator :: "zoneGroupMember \<Rightarrow> member \<Rightarrow> member" where
  "asCoordinator m x = x\<lparr>sonosName := Some (ZoneName m), uuid := Some (UUID m),
       invisible := Some (Invisible m = Some ''1'')\<rparr>"

text \<open>
  The entries \<open>sortedGroupArray\<close> appends for the members listed at another host than
  the group's, in the order of the reply, and the first entry as \<open>getGroupMemberDataV2\<close>
  keeps it: the entry of the group's host, when a member is listed there and the last such
  member is not flagged invisible.
\<close>

definition otherMembers ::
  "(string \<Rightarrow> url option) \<Rightarrow> string \<Rightarrow> zoneGroupMember list \<Rightarrow> member list"
where
  "otherMembers newURL h ms =
     List.map_filter
       (\<lambda>m. case newURL (Location m) of
               None \<Rightarrow> None
             | Some u \<Rightarrow>
                 if hostname u \<noteq> h
                 then Some \<lparr>urlHostname = hostname u, urlPort = urlport u,
                            baseUrl = httpUrl (hostname u) (urlport u),
                            sonosName = Some (ZoneName m), uuid = Some (UUID m),
                            invisible = Some (Invisible m = Some ''1'')\<rparr>
                 else None) ms"

definition hostEntry :: "(string \<Rightarrow> url option) \<Rightarrow> zoneGroup \<Rightarrow> member list" where
  "hostEntry newURL g =
     (let ces = coordinatorEntries newURL (host g) (ZoneGroupMember g)
      in if ces \<noteq> [] \<and> Invisible (last ces) \<noteq> Some ''1''
         then [\<lparr>urlHostname = host g, urlPort = port g, baseUrl = httpUrl (host g) (port g),
                 sonosName = Some (ZoneName (last ces)), uuid = Some (UUID (last ces)),
                 invisible = Some False\<rparr>]
         else [])"

text \<open>The reply of \<open>getGroupMemberDataV2\<close> for the player at 192.168.1.2 in \<open>pairGroup\<close>.\<close>

definition pairResult :: groupMemberData where
  "pairResult =
     \<lparr>playerIndex = 0,
      members = [\<lparr>urlHostname = ''192.168.1.2'', urlPort = ''1400'',
                  baseUrl = ''http://192.168.1.2:1400'', sonosName = Some ''Living'',
                  uuid = Some ''RINCON_A'', invisible = Some False\<rparr>],
      groupId = ''RINCON_A:1'', groupName = ''Living''\<rparr>"

section \<open>JavaScript values\<close>

text \<open>
  Untyped data (action arguments, HTTP responses, parsed XML) is a tree of values.
  An object is the list of its own properties in insertion order. Numbers are the
  integers, which is what the sources put into and compare with such data.
\<close>

datatype jsval =
    JUndefined
  | JNull
  | JBool bool
  | JNum int
  | JStr string
  | JArr "jsval list"
  | JObj "(string \<times> jsval) list"

text \<open>
  \<open>obj[key]\<close> for a string key: the property of an object, \<open>undefined\<close> when the
  object has no such property or the value is not an object. Inherited members
  (\<open>length\<close>, \<open>toString\<close>, ...) are not keys the sources ask for.
\<close>

fun getProp :: "jsval \<Rightarrow> string \<Rightarrow> jsval" where
  "getProp (JObj kvs) k = (case map_of kvs k of None \<Rightarrow> JUndefined | Some v \<Rightarrow> v)"
| "getProp v k = JUndefined"

fun deleteProp :: "jsval \<Rightarrow> string \<Rightarrow> jsval" where
  "deleteProp (JObj kvs) k = JObj (filter (\<lambda>kv. fst kv \<noteq> k) kvs)"
| "deleteProp v k = v"

section \<open>Helper.js\<close>

text \<open>
  The module \<open>Helper.js\<close> is not among the sources. Its four functions that the
  modelled code calls are written from what the spec says of them and from their names
  and uses in the sources.
\<close>

text \<open>
  Modelled from the spec: \<open>isTruthyAndNotEmptyString\<close> of \<open>Helper.js\<close> is missing. It
  is read by its name and by its uses in the sources (\<open>default even if uri undefined\<close>,
  \<open>playerName !== ''\<close>; the spec has a friendly name that may be given or not): it
  rejects \<open>undefined\<close>, \<open>null\<close> and the empty string.
\<close>

definition isTruthyAndNotEmptyString :: "jsval \<Rightarrow> bool" where
  "isTruthyAndNotEmptyString v = (v \<noteq> JUndefined \<and> v \<noteq> JNull \<and> v \<noteq> JStr [])"

text \<open>
  Modelled from the spec: \<open>getNestedProperty\<close> of \<open>Helper.js\<close> is missing. It follows
  the path of keys from the object (the spec locates the response node by the path
  Envelope, Body, action response).
\<close>

definition getNestedProperty :: "jsval \<Rightarrow> string list \<Rightarrow> jsval" where
  "getNestedProperty nestedObj pathArray = foldl getProp nestedObj pathArray"

text \<open>
  Modelled from the spec: \<open>isValidProperty\<close> of \<open>Helper.js\<close> is missing. The spec says
  that presence, not truthiness, is required, an empty string counting as present: the
  test follows the path and accepts any value found there other than \<open>undefined\<close> and
  \<open>null\<close>.
\<close>

definition isValidProperty :: "jsval \<Rightarrow> string list \<Rightarrow> bool" where
  "isValidProperty nestedObj pathArray =
     (let v = foldl getProp nestedObj pathArray in v \<noteq> JUndefined \<and> v \<noteq> JNull)"


section \<open>Players and their calls\<close>

text \<open>
  A player object of the node-sonos library, as far as the sources read its fields.
\<close>

record playerPlus =
  playerHost :: string
  playerPort :: string
  playerBaseUrl :: string

record mediaInfo =
  CurrentURI :: string
  CurrentURIMetaData :: string
  NrTracks :: int

text \<open>
  \<open>Track\<close> and \<open>NrTracks\<close> are numbers, so that \<open>> 1\<close> is the numeric comparison and
  truthiness of \<open>Track\<close> is being non-zero. \<open>RelTime\<close> and \<open>TrackDuration\<close> are
  strings that the reply may lack.
\<close>

record positionInfo =
  Track :: int
  RelTime :: "string option"
  TrackDuration :: "string option"

text \<open>
  Everything the sources ask of the outside world: the methods of a player object, the
  SOAP transport \<open>sendToPlayerV1\<close> (origin, endpoint, service name, action name,
  arguments) and the timed wait. \<open>setVolume\<close> carries \<open>None\<close> when the code passes
  \<open>undefined\<close>.
\<close>

datatype call =
    GetCurrentState playerPlus
  | GetMediaInfo playerPlus
  | GetPositionInfo playerPlus
  | GetVolume playerPlus
  | GetMuted playerPlus
  | SetVolume playerPlus "int option"
  | SetMuted playerPlus bool
  | SetAVTransportURI playerPlus string string bool
  | SelectTrack playerPlus int
  | Seek playerPlus string
  | Play playerPlus
  | SendToPlayerV1 string string "string option" string jsval
  | SetTimeout int

datatype reply =
    Done
  | State string
  | Media mediaInfo
  | Position positionInfo
  | Volume int
  | Muted bool
  | Response jsval

text \<open>
  The outside world is a parameter \<open>env\<close>: from a call and the world's state \<open>'w\<close> it
  gives the reply (\<open>None\<close>: the promise is rejected) and the next state. A run carries
  the world and the log of the calls issued so far, each with whether it was answered.
  An asynchronous function of the sources is a function from that state to its result
  (\<open>Inl\<close>: it throws) and the new state.
\<close>

type_synonym 'w env = "call \<Rightarrow> 'w \<Rightarrow> reply option \<times> 'w"

type_synonym 'w run = "'w \<times> (call \<times> bool) list"

type_synonym ('w, 'a) action = "'w run \<Rightarrow> (error + 'a) \<times> 'w run"

definition ret :: "'a \<Rightarrow> ('w, 'a) action" where
  "ret x s = (Inr x, s)"

definition throw :: "error \<Rightarrow> ('w, 'a) action" where
  "throw e s = (Inl e, s)"

definition bnd :: "('w, 'a) action \<Rightarrow> ('a \<Rightarrow> ('w, 'b) action) \<Rightarrow> ('w, 'b) action" where
  "bnd m f s = (case m s of (Inl e, s') \<Rightarrow> (Inl e, s') | (Inr x, s') \<Rightarrow> f x s')"

text \<open>\<open>promise.catch(() => { node.debug(...) })\<close>: a rejection is logged and dropped.\<close>

definition catchIgnore :: "('w, 'a) action \<Rightarrow> ('w, unit) action" where
  "catchIgnore m s = (case m s of (Inl e, s') \<Rightarrow> (Inr (), s') | (Inr x, s') \<Rightarrow> (Inr (), s'))"

definition whenever :: "bool \<Rightarrow> ('w, unit) action \<Rightarrow> ('w, unit) action" where
  "whenever b m = (if b then m else ret ())"

definition request :: "'w env \<Rightarrow> call \<Rightarrow> ('w, reply) action" where
  "request env c s =
     (case env c (fst s) of
        (None, w') \<Rightarrow> (Inl Rejected, (w', snd s @ [(c, False)]))
      | (Some r, w') \<Rightarrow> (Inr r, (w', snd s @ [(c, True)])))"

text \<open>A call whose result the code does not use.\<close>

definition perform :: "'w env \<Rightarrow> call \<Rightarrow> ('w, unit) action" where
  "perform env c = bnd (request env c) (\<lambda>r. ret ())"

text \<open>\<open>for (let index = ...; ...) { await ... }\<close> over the given indices, in order.\<close>

fun forEach :: "'a list \<Rightarrow> ('a \<Rightarrow> ('w, unit) action) \<Rightarrow> ('w, unit) action" where
  "forEach [] body = ret ()"
| "forEach (x # xs) body = bnd (body x) (\<lambda>u. forEach xs body)"

section \<open>executeActionV6\<close>

text \<open>
  \<open>ACTIONS_TEMPLATESV6\<close> is loaded from \<open>Db-ActionsV6.json\<close>, which is not among the
  sources: it is the parameter \<open>templates\<close>, from an endpoint to its actions and from
  an action name to the names of its input and output arguments. The XML parser
  \<open>xml2js.parseStringPromise\<close> is the parameter \<open>parseXml\<close> (\<open>None\<close>: it throws).
  The error texts that end in a JSON rendering of the response are kept without it.
\<close>

record actionTemplate =
  inArgs :: "string list"
  outArgs :: "string list"

type_synonym templates = "string \<Rightarrow> (string \<Rightarrow> actionTemplate option) option"

fun split :: "char \<Rightarrow> string \<Rightarrow> string list" where
  "split sep [] = [[]]"
| "split sep (c # cs) =
     (if c = sep then [] # split sep cs
      else (case split sep cs of [] \<Rightarrow> [[c]] | w # ws \<Rightarrow> (c # w) # ws))"

definition serviceNameOf :: "string \<Rightarrow> string option" where
  "serviceNameOf endpoint =
     (let tmp = split (CHR ''/'') endpoint
      in if 2 \<le> length tmp then Some (tmp ! (length tmp - 2)) else None)"

definition sendToPlayerV1 ::
  "'w env \<Rightarrow> string \<Rightarrow> string \<Rightarrow> string option \<Rightarrow> string \<Rightarrow> jsval \<Rightarrow> ('w, jsval) action"
where
  "sendToPlayerV1 env playerUrlOrigin endpoint serviceName actionName args =
     bnd (request env (SendToPlayerV1 playerUrlOrigin endpoint serviceName actionName args))
       (\<lambda>r. case r of Response response \<Rightarrow> ret response | _ \<Rightarrow> throw TypeError)"

definition responseKey :: "string \<Rightarrow> string list" where
  "responseKey actionName = [''s:Envelope'', ''s:Body'', ''u:'' @ actionName @ ''Response'']"

definition expectedResponseValue :: "string option \<Rightarrow> string" where
  "expectedResponseValue serviceName =
     ''urn:schemas-upnp-org:service:'' @
     (case serviceName of None \<Rightarrow> ''undefined'' | Some n \<Rightarrow> n) @ '':1''"

text \<open>The part of \<open>executeActionV6\<close> after the XML is parsed: the response node, its namespace and the expected outputs.\<close>

definition decodeResponse :: "string list \<Rightarrow> string option \<Rightarrow> string \<Rightarrow> jsval \<Rightarrow> error + jsval" where
  "decodeResponse outs serviceName actionName bodyXml =
     (if \<not> isValidProperty bodyXml (responseKey actionName)
      then Inl (Nrcsp ''body from sendToPlayer is invalid'')
      else
        (let result = getNestedProperty bodyXml (responseKey actionName)
         in if \<not> isValidProperty result [''xmlns:u'']
            then Inl (Nrcsp ''xmlns:u property is missing'')
            else if getProp result ''xmlns:u'' \<noteq> JStr (expectedResponseValue serviceName)
            then Inl (Nrcsp ''unexpected response from player: urn:schemas ... is missint '')
            else if length outs = 0
            then Inr (JBool True)
            else
              (case find (\<lambda>property. \<not> isValidProperty result [property]) outs of
                 Some property \<Rightarrow>
                   Inl (Nrcsp (''response property '' @ property @ '' is missing}''))
               | None \<Rightarrow>
                   (let result' = deleteProp result ''xmlns:u''
                    in if length outs = 1 then Inr (getProp result' (outs ! 0))
                       else Inr result'))))"

text \<open>The checks of \<open>executeActionV6\<close> on the response, up to the XML parser.\<close>

definition checkResponse ::
  "(jsval \<Rightarrow> jsval option) \<Rightarrow> string list \<Rightarrow> string option \<Rightarrow> string \<Rightarrow> jsval \<Rightarrow> error + jsval"
where
  "checkResponse parseXml outs serviceName actionName response =
     (if \<not> isValidProperty response [''statusCode'']
      then Inl (Nrcsp ''status code from sendToPlayer is invalid'')
      else if getProp response ''statusCode'' \<noteq> JNum 200
      then Inl (Nrcsp ''status code is not 200'')
      else if \<not> isValidProperty response [''body'']
      then Inl (Nrcsp ''body from sendToPlayer is invalid'')
      else
        (case parseXml (getProp response ''body'') of
           None \<Rightarrow> Inl XmlError
         | Some bodyXml \<Rightarrow> decodeResponse outs serviceName actionName bodyXml))"

definition executeActionV6 ::
  "'w env \<Rightarrow> templates \<Rightarrow> (jsval \<Rightarrow> jsval option) \<Rightarrow> string \<Rightarrow> string \<Rightarrow> string \<Rightarrow> jsval
     \<Rightarrow> ('w, jsval) action"
where
  "executeActionV6 env templates parseXml playerUrlOrigin endpoint actionName actionInArgs =
     (case templates endpoint of
        None \<Rightarrow> throw TypeError
      | Some endpointActions \<Rightarrow>
          (case endpointActions actionName of
             None \<Rightarrow> throw TypeError
           | Some template \<Rightarrow>
               (case find (\<lambda>property. \<not> isValidProperty actionInArgs [property])
                       (inArgs template) of
                  Some property \<Rightarrow> throw (Nrcsp (''property '' @ property @ '' is missing}''))
                | None \<Rightarrow>
                    (let serviceName = serviceNameOf endpoint
                     in bnd (sendToPlayerV1 env playerUrlOrigin endpoint serviceName actionName
                               actionInArgs)
                          (\<lambda>response.
                             case checkResponse parseXml (outArgs template) serviceName
                                    actionName response of
                               Inl e \<Rightarrow> throw e
                             | Inr result \<Rightarrow> ret result)))))"

section \<open>Example device\<close>

text \<open>
  A player that answers every transport call with a 200 response to
  \<open>GetTransportSettings\<close> carrying one element more than the action template expects,
  the templates of three AVTransport actions, and the parser reading that body.
\<close>

definition avTransportActions :: "string \<Rightarrow> actionTemplate option" where
  "avTransportActions actionName =
     (if actionName = ''SetAVTransportURI''
      then Some \<lparr>inArgs = [''InstanceID'', ''CurrentURI'', ''CurrentURIMetaData''], outArgs = []\<rparr>
      else if actionName = ''Play''
      then Some \<lparr>inArgs = [''InstanceID'', ''Speed''], outArgs = []\<rparr>
      else if actionName = ''GetTransportSettings''
      then Some \<lparr>inArgs = [''InstanceID''], outArgs = [''PlayMode'', ''RecQualityMode'']\<rparr>
      else None)"

definition exampleTemplates :: templates where
  "exampleTemplates endpoint =
     (if endpoint = ''/MediaRenderer/AVTransport/Control'' then Some avTransportActions else None)"

definition settingsBody :: string where
  "settingsBody =
     ''<s:Envelope><s:Body><u:GetTransportSettingsResponse xmlns:u='urn:schemas-upnp-org:service:AVTransport:1'><PlayMode>NORMAL</PlayMode><RecQualityMode>NOT_IMPLEMENTED</RecQualityMode><Extra>1</Extra></u:GetTransportSettingsResponse></s:Body></s:Envelope>''"

definition settingsXml :: jsval where
  "settingsXml =
     JObj [(''s:Envelope'',
       JObj [(''s:Body'',
         JObj [(''u:GetTransportSettingsResponse'',
           JObj [(''xmlns:u'', JStr ''urn:schemas-upnp-org:service:AVTransport:1''),
                 (''PlayMode'', JStr ''NORMAL''),
                 (''RecQualityMode'', JStr ''NOT_IMPLEMENTED''),
                 (''Extra'', JStr ''1'')])])])]"

definition exampleParse :: "jsval \<Rightarrow> jsval option" where
  "exampleParse body = (if body = JStr settingsBody then Some settingsXml else None)"

definition settingsResponse :: jsval where
  "settingsResponse = JObj [(''headers'', JObj []), (''body'', JStr settingsBody), (''statusCode'', JNum 200)]"

fun examplePlayer :: "unit env" where
  "examplePlayer (SendToPlayerV1 origin endpoint serviceName actionName args) w =
     (Some (Response settingsResponse), w)"
| "examplePlayer c w = (Some Done, w)"

definition settingsCall :: call where
  "settingsCall =
     SendToPlayerV1 ''http://192.168.1.2:1400'' ''/MediaRenderer/AVTransport/Control''
       (Some ''AVTransport'') ''GetTransportSettings'' (JObj [(''InstanceID'', JNum 0)])"

definition settingsResult :: jsval where
  "settingsResult =
     JObj [(''PlayMode'', JStr ''NORMAL''),
           (''RecQualityMode'', JStr ''NOT_IMPLEMENTED''),
           (''Extra'', JStr ''1'')]"

section \<open>DIDL-Lite items\<close>

text \<open>
  The objects the parser builds and the list functions later extend (\<open>radioId\<close> is
  added by assignment) are property lists. Assignment replaces the value of a property
  the object has and appends a new one otherwise.
\<close>

type_synonym object = "(string \<times> jsval) list"

fun setProp :: "object \<Rightarrow> string \<Rightarrow> jsval \<Rightarrow> object" where
  "setProp [] k v = [(k, v)]"
| "setProp (kv # kvs) k v = (if fst kv = k then (k, v) # kvs else kv # setProp kvs k v)"

definition UNPN_CLASSES_UNSUPPORTED :: "string list" where
  "UNPN_CLASSES_UNSUPPORTED =
     [''object.container.podcast.#podcastContainer'', ''object.container.albumlist'']"




text \<open>
  \<open>MUSIC_SERVICES\<close> is loaded from \<open>Db-MusicServices.json\<close>, which is not among the
  sources: it is the parameter \<open>services\<close>, the list of pairs of a service id and its name.
\<close>

definition getMusicServiceName :: "(string \<times> string) list \<Rightarrow> string \<Rightarrow> string" where
  "getMusicServiceName services serviceId =
     (if serviceId \<noteq> [] then
        (case find (\<lambda>service. fst service = serviceId) services of
           None \<Rightarrow> []
         | Some service \<Rightarrow> snd service)
      else [])"



text \<open>
  The string helpers applied to a property value. \<open>undefined\<close>, \<open>null\<close> and the empty
  string take the helper's default; another value that is not a string has none of the
  string methods the helper calls, which is a \<open>TypeError\<close>. (The parser gives text
  content as a string, so the other shapes do not reach these calls.)
\<close>

definition onString :: "(string \<Rightarrow> string) \<Rightarrow> jsval \<Rightarrow> error + string" where
  "onString f v =
     (if \<not> isTruthyAndNotEmptyString v then Inr []
      else (case v of JStr s \<Rightarrow> Inr (f s) | _ \<Rightarrow> Inl TypeError))"

text \<open>
  The callback of \<open>originalItems.map\<close> in \<open>didlXmlToArray\<close>; \<open>tag\<close> is the parser's
  character key \<open>uriIdentifier\<close>.
\<close>

definition emptyBrowseItem :: object where
  "emptyBrowseItem =
     [(''id'', JStr []), (''title'', JStr []), (''artist'', JStr []), (''uri'', JStr []),
      (''artUri'', JStr []), (''metadata'', JStr []), (''sid'', JStr []),
      (''serviceName'', JStr []), (''upnpClass'', JStr []), (''processingType'', JStr [])]"

text \<open>The \<open>res\<close> branch: the uri and the two values derived from it.\<close>

definition setUri :: "(string \<times> string) list \<Rightarrow> object \<Rightarrow> jsval \<Rightarrow> error + object" where
  "setUri services d u =
     (case onString getMusicServiceId u of
        Inl e \<Rightarrow> Inl e
      | Inr serviceId \<Rightarrow>
          Inr (setProp (setProp (setProp d ''uri'' u) ''sid'' (JStr serviceId))
                 ''serviceName'' (JStr (getMusicServiceName services serviceId))))"

text \<open>The album art branch: the first entry of an array, the value itself otherwise.\<close>

definition setArtUri :: "object \<Rightarrow> jsval \<Rightarrow> object" where
  "setArtUri d art =
     (case art of
        JArr arts \<Rightarrow> (if length arts > 0 then setProp d ''artUri'' (arts ! 0) else d)
      | _ \<Rightarrow> setProp d ''artUri'' art)"

definition transformItem :: "(string \<times> string) list \<Rightarrow> jsval \<Rightarrow> error + object" where
  "transformItem services item =
     (if \<not> isValidProperty item [''id''] then Inl (Nrcsp ''id is missing'')
      else if \<not> isValidProperty item [''dc:title''] then Inl (Nrcsp ''title is missing'')
      else
        (let d1 = setProp emptyBrowseItem ''id'' (getProp item ''id'');
             d2 = setProp d1 ''title'' (getProp item ''dc:title'');
             d3 = (if isValidProperty item [''dc:creator'']
                   then setProp d2 ''artist'' (getProp item ''dc:creator'') else d2)
         in case (if isValidProperty item [''res'', ''uriIdentifier'']
                  then setUri services d3 (getProp (getProp item ''res'') ''uriIdentifier'')
                  else Inr d3) of
              Inl e \<Rightarrow> Inl e
            | Inr d4 \<Rightarrow>
                (let d5 = (if isValidProperty item [''upnp:class'']
                           then setProp d4 ''upnpClass'' (getProp item ''upnp:class'') else d4);
                     d6 = (if isValidProperty item [''upnp:albumArtURI'']
                           then setArtUri d5 (getProp item ''upnp:albumArtURI'') else d5);
                     d7 = (if isValidProperty item [''r:resMD'']
                           then setProp d6 ''metadata'' (getProp item ''r:resMD'') else d6)
                 in Inr d7)))"

fun transformItems :: "(string \<times> string) list \<Rightarrow> jsval list \<Rightarrow> error + object list" where
  "transformItems services [] = Inr []"
| "transformItems services (item # items) =
     (case transformItem services item of
        Inl e \<Rightarrow> Inl e
      | Inr d \<Rightarrow>
          (case transformItems services items of
             Inl e \<Rightarrow> Inl e
           | Inr ds \<Rightarrow> Inr (d # ds)))"

text \<open>
  \<open>didlXmlToArray\<close>. The XML parser is the parameter \<open>parseXml\<close> (\<open>None\<close>: it throws).
\<close>

definition didlXmlToArray ::
  "(jsval \<Rightarrow> jsval option) \<Rightarrow> (string \<times> string) list \<Rightarrow> jsval \<Rightarrow> string \<Rightarrow> error + object list"
where
  "didlXmlToArray parseXml services didlXml itemName =
     (if \<not> isTruthyAndNotEmptyString didlXml
      then Inl (Nrcsp ''DIDL-Light input is missing'')
      else if \<not> isTruthyAndNotEmptyString (JStr itemName)
      then Inl (Nrcsp ''item name such as container is missing'')
      else
        (case parseXml didlXml of
           None \<Rightarrow> Inl XmlError
         | Some didlJson \<Rightarrow>
             if \<not> isTruthyAndNotEmptyString didlJson
             then Inl (Nrcsp ''response form xml2js is invalid.'')
             else
               (let originalItems =
                      (if isValidProperty didlJson [''DIDL-Lite'', itemName] then
                         (case getProp (getProp didlJson ''DIDL-Lite'') itemName of
                            JArr itemsOrOne \<Rightarrow> itemsOrOne
                          | itemsOrOne \<Rightarrow> [itemsOrOne])
                       else [])
                in transformItems services originalItems)))"







section \<open>Example items\<close>

text \<open>
  A parser for a list without entries, a favourite whose node has neither a class nor
  metadata, and a radio favourite whose class is in its metadata.
\<close>

definition emptyListParse :: "jsval \<Rightarrow> jsval option" where
  "emptyListParse xml =
     (if xml = JStr ''<DIDL-Lite></DIDL-Lite>'' then Some (JObj [(''DIDL-Lite'', JStr [])])
      else None)"





section \<open>Group snapshots\<close>

text \<open>
  The typed player methods. A reply of another shape than the method's is outside the
  library's contract and counts as a failure of the call.
\<close>

definition getCurrentState :: "'w env \<Rightarrow> playerPlus \<Rightarrow> ('w, string) action" where
  "getCurrentState env p =
     bnd (request env (GetCurrentState p))
       (\<lambda>r. case r of State st \<Rightarrow> ret st | _ \<Rightarrow> throw TypeError)"

definition getMediaInfo :: "'w env \<Rightarrow> playerPlus \<Rightarrow> ('w, mediaInfo) action" where
  "getMediaInfo env p =
     bnd (request env (GetMediaInfo p))
       (\<lambda>r. case r of Media m \<Rightarrow> ret m | _ \<Rightarrow> throw TypeError)"

definition getPositionInfo :: "'w env \<Rightarrow> playerPlus \<Rightarrow> ('w, positionInfo) action" where
  "getPositionInfo env p =
     bnd (request env (GetPositionInfo p))
       (\<lambda>r. case r of Position pos \<Rightarrow> ret pos | _ \<Rightarrow> throw TypeError)"

definition getVolume :: "'w env \<Rightarrow> playerPlus \<Rightarrow> ('w, int) action" where
  "getVolume env p =
     bnd (request env (GetVolume p))
       (\<lambda>r. case r of Volume v \<Rightarrow> ret v | _ \<Rightarrow> throw TypeError)"

definition getMuted :: "'w env \<Rightarrow> playerPlus \<Rightarrow> ('w, bool) action" where
  "getMuted env p =
     bnd (request env (GetMuted p))
       (\<lambda>r. case r of Muted b \<Rightarrow> ret b | _ \<Rightarrow> throw TypeError)"

text \<open>
  The snapshot of \<open>createGroupSnapshot\<close>. A volume of \<open>-1\<close> and a mute state of
  \<open>null\<close> (\<open>None\<close>) mean "not captured". The fields copied from the media and position
  replies carry the prefix \<open>snap\<close>.
\<close>

record memberState = memberSimple +
  volume :: int
  mutestate :: "string option"

record groupSnapshot =
  memberData :: "memberState list"
  playbackstate :: string
  snapWasPlaying :: bool
  snapCurrentURI :: string
  CurrentURIMetadata :: string
  snapNrTracks :: int
  snapTrack :: int
  snapRelTime :: "string option"
  snapTrackDuration :: "string option"

definition isPlaying :: "string \<Rightarrow> bool" where
  "isPlaying st = (st = ''playing'' \<or> st = ''transitioning'')"

fun captureMembers ::
  "'w env \<Rightarrow> bool \<Rightarrow> bool \<Rightarrow> playerPlus list \<Rightarrow> memberState list \<Rightarrow> ('w, memberState list) action"
where
  "captureMembers env snapVolumes snapMutestates [] acc = ret acc"
| "captureMembers env snapVolumes snapMutestates (p # ps) acc =
     bnd (if snapVolumes then getVolume env p else ret (- 1))
       (\<lambda>playersVolume.
          bnd (if snapMutestates
               then bnd (getMuted env p) (\<lambda>m. ret (Some (if m then ''on'' else ''off'')))
               else ret None)
            (\<lambda>playersMutestate.
               captureMembers env snapVolumes snapMutestates ps
                 (acc @ [\<lparr>urlHostname = playerHost p, urlPort = playerPort p,
                          baseUrl = playerBaseUrl p,
                          volume = playersVolume, mutestate = playersMutestate\<rparr>])))"

definition createGroupSnapshot ::
  "'w env \<Rightarrow> playerPlus list \<Rightarrow> bool \<Rightarrow> bool \<Rightarrow> ('w, groupSnapshot) action"
where
  "createGroupSnapshot env membersAsPlayersPlus snapVolumes snapMutestates =
     bnd (captureMembers env snapVolumes snapMutestates membersAsPlayersPlus [])
       (\<lambda>captured.
          case membersAsPlayersPlus of
            [] \<Rightarrow> throw TypeError
          | coordinator # others \<Rightarrow>
              bnd (getCurrentState env coordinator)
                (\<lambda>st.
                   bnd (getMediaInfo env coordinator)
                     (\<lambda>mediaData.
                        bnd (getPositionInfo env coordinator)
                          (\<lambda>positionData.
                             ret \<lparr>memberData = captured,
                                  playbackstate = st,
                                  snapWasPlaying = isPlaying st,
                                  snapCurrentURI = CurrentURI mediaData,
                                  CurrentURIMetadata = CurrentURIMetaData mediaData,
                                  snapNrTracks = NrTracks mediaData,
                                  snapTrack = Track positionData,
                                  snapRelTime = RelTime positionData,
                                  snapTrackDuration = TrackDuration positionData\<rparr>))))"

text \<open>
  \<open>restoreGroupSnapshot\<close>. The two best-effort steps carry the \<open>.catch\<close> of the
  source. The body of the member loop reads \<open>snapshot.memberData[index]\<close>, which is
  \<open>undefined\<close> beyond the end of the array, so that reading its volume is a
  \<open>TypeError\<close>.
\<close>

definition selectTrackBestEffort :: "'w env \<Rightarrow> playerPlus \<Rightarrow> int \<Rightarrow> int \<Rightarrow> ('w, unit) action" where
  "selectTrackBestEffort env coordinator track nrTracks =
     whenever (track \<noteq> 0 \<and> track > 1 \<and> nrTracks > 1)
       (catchIgnore (perform env (SelectTrack coordinator track)))"

definition seekBestEffort ::
  "'w env \<Rightarrow> playerPlus \<Rightarrow> string option \<Rightarrow> string option \<Rightarrow> ('w, unit) action"
where
  "seekBestEffort env coordinator relTime trackDuration =
     (case relTime of
        None \<Rightarrow> ret ()
      | Some t \<Rightarrow>
          whenever (t \<noteq> [] \<and> trackDuration \<noteq> Some ''0:00:00'')
            (catchIgnore (perform env (Seek coordinator t))))"

definition restoreMember ::
  "'w env \<Rightarrow> playerPlus list \<Rightarrow> memberState list \<Rightarrow> nat \<Rightarrow> ('w, unit) action"
where
  "restoreMember env membersAsPlayersPlus captured index =
     (if length captured \<le> index then throw TypeError
      else
        bnd (whenever (volume (captured ! index) \<noteq> - 1)
               (perform env (SetVolume (membersAsPlayersPlus ! index)
                               (Some (volume (captured ! index))))))
          (\<lambda>u. whenever (mutestate (captured ! index) \<noteq> None)
                 (perform env (SetMuted (membersAsPlayersPlus ! index)
                                 (mutestate (captured ! index) = Some ''on'')))))"

definition restoreGroupSnapshot ::
  "'w env \<Rightarrow> playerPlus list \<Rightarrow> groupSnapshot \<Rightarrow> ('w, bool) action"
where
  "restoreGroupSnapshot env membersAsPlayersPlus snapshot =
     (case membersAsPlayersPlus of
        [] \<Rightarrow> throw TypeError
      | coordinator # others \<Rightarrow>
          bnd (perform env (SetAVTransportURI coordinator (snapCurrentURI snapshot)
                              (CurrentURIMetadata snapshot) True))
            (\<lambda>u. bnd (selectTrackBestEffort env coordinator (snapTrack snapshot)
                        (snapNrTracks snapshot))
               (\<lambda>u. bnd (seekBestEffort env coordinator (snapRelTime snapshot)
                           (snapTrackDuration snapshot))
                  (\<lambda>u. bnd (forEach [0..<length membersAsPlayersPlus]
                              (restoreMember env membersAsPlayersPlus (memberData snapshot)))
                     (\<lambda>u. ret True)))))"

section \<open>Group notification\<close>

text \<open>
  The options of \<open>playGroupNotification\<close>; \<open>metadata\<close> is \<open>None\<close> when the property
  is absent, and the notification volume is the field \<open>notifyVolume\<close>. The functions
  \<open>GenerateMetadata\<close> (node-sonos) and \<open>hhmmss2msec\<close> (\<open>Helper.js\<close>, not among the
  sources) are parameters, with the action templates and the XML parser.
\<close>

record options =
  uri :: string
  metadata :: "string option"
  notifyVolume :: int
  sameVolume :: bool
  automaticDuration :: bool
  duration :: string

record library =
  ACTIONS_TEMPLATESV6 :: templates
  parseStringPromise :: "jsval \<Rightarrow> jsval option"
  GenerateMetadata :: "string \<Rightarrow> string"
  hhmmss2msec :: "string \<Rightarrow> int"

text \<open>
  The snapshot inside \<open>playGroupNotification\<close>. \<open>memberVolumes\<close> is an array filled
  at some indices only: a map from the index to the volume.
\<close>

record notificationSnapshot =
  wasPlaying :: bool
  mediaInfo :: mediaInfo
  positionInfo :: positionInfo
  memberVolumes :: "nat \<Rightarrow> int option"

definition WAIT_ADJUSTMENT :: int where
  "WAIT_ADJUSTMENT = 2000"

fun snapOtherVolumes ::
  "'w env \<Rightarrow> playerPlus list \<Rightarrow> nat list \<Rightarrow> (nat \<Rightarrow> int option) \<Rightarrow> ('w, nat \<Rightarrow> int option) action"
where
  "snapOtherVolumes env ps [] vols = ret vols"
| "snapOtherVolumes env ps (index # rest) vols =
     bnd (getVolume env (ps ! index))
       (\<lambda>v. snapOtherVolumes env ps rest (vols(index \<mapsto> v)))"

definition takeSnapshot ::
  "'w env \<Rightarrow> playerPlus list \<Rightarrow> options \<Rightarrow> ('w, notificationSnapshot) action"
where
  "takeSnapshot env membersAsPlayerPlus opts =
     (case membersAsPlayerPlus of
        [] \<Rightarrow> throw TypeError
      | coordinator # others \<Rightarrow>
          bnd (getCurrentState env coordinator)
            (\<lambda>st.
               bnd (getMediaInfo env coordinator)
                 (\<lambda>media.
                    bnd (getPositionInfo env coordinator)
                      (\<lambda>pos.
                         bnd (if notifyVolume opts \<noteq> - 1
                              then bnd (getVolume env coordinator)
                                     (\<lambda>v. ret ((\<lambda>i. None)(0 \<mapsto> v)))
                              else ret (\<lambda>i. None))
                           (\<lambda>vols0.
                              bnd (if sameVolume opts
                                   then snapOtherVolumes env membersAsPlayerPlus
                                          [1..<length membersAsPlayerPlus] vols0
                                   else ret vols0)
                                (\<lambda>vols.
                                   ret \<lparr>wasPlaying = isPlaying st,
                                        mediaInfo = media,
                                        positionInfo = pos,
                                        memberVolumes = vols\<rparr>))))))"

definition startNotification ::
  "'w env \<Rightarrow> library \<Rightarrow> playerPlus list \<Rightarrow> options \<Rightarrow> ('w, unit) action"
where
  "startNotification env lib membersAsPlayerPlus opts =
     (case membersAsPlayerPlus of
        [] \<Rightarrow> throw TypeError
      | coordinator # others \<Rightarrow>
          (let md = (case metadata opts of
                       None \<Rightarrow> GenerateMetadata lib (uri opts)
                     | Some given \<Rightarrow> given);
               args = JObj [(''InstanceID'', JNum 0),
                            (''CurrentURI'', JStr (encodeXml (uri opts))),
                            (''CurrentURIMetaData'',
                               JStr (if md \<noteq> [] then encodeXml md else []))]
           in bnd (executeActionV6 env (ACTIONS_TEMPLATESV6 lib) (parseStringPromise lib)
                     (playerBaseUrl coordinator) ''/MediaRenderer/AVTransport/Control''
                     ''SetAVTransportURI'' args)
                (\<lambda>r. bnd (whenever (notifyVolume opts \<noteq> - 1)
                             (bnd (perform env (SetVolume coordinator (Some (notifyVolume opts))))
                                (\<lambda>u. whenever (sameVolume opts)
                                       (forEach [1..<length membersAsPlayerPlus]
                                          (\<lambda>index. perform env
                                             (SetVolume (membersAsPlayerPlus ! index)
                                                (Some (notifyVolume opts))))))))
                   (\<lambda>u. bnd (executeActionV6 env (ACTIONS_TEMPLATESV6 lib)
                               (parseStringPromise lib) (playerBaseUrl coordinator)
                               ''/MediaRenderer/AVTransport/Control'' ''Play''
                               (JObj [(''InstanceID'', JNum 0), (''Speed'', JNum 1)]))
                      (\<lambda>r. ret ())))))"

definition waitForEnd ::
  "'w env \<Rightarrow> library \<Rightarrow> playerPlus list \<Rightarrow> options \<Rightarrow> ('w, unit) action"
where
  "waitForEnd env lib membersAsPlayerPlus opts =
     (case membersAsPlayerPlus of
        [] \<Rightarrow> throw TypeError
      | coordinator # others \<Rightarrow>
          bnd (if automaticDuration opts
               then bnd (getPositionInfo env coordinator)
                      (\<lambda>pos. case TrackDuration pos of
                                None \<Rightarrow> ret (hhmmss2msec lib (duration opts))
                              | Some d \<Rightarrow> ret (hhmmss2msec lib d + WAIT_ADJUSTMENT))
               else ret (hhmmss2msec lib (duration opts)))
            (\<lambda>waitInMilliseconds. perform env (SetTimeout waitInMilliseconds)))"

text \<open>
  The restore phase, from "return to previous state = restore snapshot" to the end of
  \<open>playGroupNotification\<close>. Both tests of the marker \<open>x-sonos-vli\<close> read
  \<open>options.uri\<close>.
\<close>

definition restoreAfterNotification ::
  "'w env \<Rightarrow> playerPlus list \<Rightarrow> options \<Rightarrow> notificationSnapshot \<Rightarrow> ('w, unit) action"
where
  "restoreAfterNotification env membersAsPlayerPlus opts snapshot =
     (case membersAsPlayerPlus of
        [] \<Rightarrow> throw TypeError
      | coordinator # others \<Rightarrow>
          bnd (whenever (notifyVolume opts \<noteq> - 1)
                 (perform env (SetVolume coordinator (memberVolumes snapshot 0))))
            (\<lambda>u. bnd (whenever (sameVolume opts)
                        (forEach [1..<length membersAsPlayerPlus]
                           (\<lambda>index. perform env
                              (SetVolume (membersAsPlayerPlus ! index)
                                 (memberVolumes snapshot index)))))
               (\<lambda>u. bnd (whenever (\<not> includes_str (uri opts) ''x-sonos-vli'')
                           (perform env
                              (SetAVTransportURI coordinator
                                 (CurrentURI (mediaInfo snapshot))
                                 (CurrentURIMetaData (mediaInfo snapshot)) True)))
                  (\<lambda>u. bnd (selectTrackBestEffort env coordinator
                              (Track (positionInfo snapshot)) (NrTracks (mediaInfo snapshot)))
                     (\<lambda>u. bnd (seekBestEffort env coordinator
                                 (RelTime (positionInfo snapshot))
                                 (TrackDuration (positionInfo snapshot)))
                        (\<lambda>u. whenever (wasPlaying snapshot)
                               (whenever (\<not> includes_str (uri opts) ''x-sonos-vli'')
                                  (perform env (Play coordinator)))))))))"

definition playGroupNotification ::
  "'w env \<Rightarrow> library \<Rightarrow> playerPlus list \<Rightarrow> options \<Rightarrow> ('w, unit) action"
where
  "playGroupNotification env lib membersAsPlayerPlus opts =
     bnd (takeSnapshot env membersAsPlayerPlus opts)
       (\<lambda>snapshot.
          bnd (startNotification env lib membersAsPlayerPlus opts)
            (\<lambda>u. bnd (waitForEnd env lib membersAsPlayerPlus opts)
               (\<lambda>u. restoreAfterNotification env membersAsPlayerPlus opts snapshot)))"

section \<open>Notions for the statements about restoring\<close>

text \<open>
  The calls a run issued (the part of the log it added), the two best-effort calls, the
  conditions under which they are due, and the volume and mute calls that the captured
  state of the members asks for.
\<close>

definition issued :: "'w run \<Rightarrow> 'w run \<Rightarrow> (call \<times> bool) list" where
  "issued s s' = drop (length (snd s)) (snd s')"

definition bestEffort :: "call \<Rightarrow> bool" where
  "bestEffort c = (case c of SelectTrack p t \<Rightarrow> True | Seek p t \<Rightarrow> True | _ \<Rightarrow> False)"

definition memberPlan :: "playerPlus \<Rightarrow> memberState \<Rightarrow> call list" where
  "memberPlan p d =
     (if volume d \<noteq> - 1 then [SetVolume p (Some (volume d))] else []) @
     (if mutestate d \<noteq> None then [SetMuted p (mutestate d = Some ''on'')] else [])"

definition planAt :: "playerPlus list \<Rightarrow> memberState list \<Rightarrow> nat \<Rightarrow> call list" where
  "planAt ps md i = (if i < length md then memberPlan (ps ! i) (md ! i) else [])"

definition planFor :: "playerPlus list \<Rightarrow> memberState list \<Rightarrow> nat list \<Rightarrow> call list" where
  "planFor ps md idxs = concat (map (planAt ps md) idxs)"

definition answered :: "call list \<Rightarrow> (call \<times> bool) list" where
  "answered cs = map (\<lambda>c. (c, True)) cs"

definition seekDue :: "string option \<Rightarrow> string option \<Rightarrow> bool" where
  "seekDue relTime trackDuration =
     (case relTime of None \<Rightarrow> False | Some t \<Rightarrow> t \<noteq> [] \<and> trackDuration \<noteq> Some ''0:00:00'')"

definition trackDue :: "int \<Rightarrow> int \<Rightarrow> bool" where
  "trackDue t n = (t > 1 \<and> n > 1)"

section \<open>Example group\<close>

text \<open>
  Two players, a snapshot taken while the third of ten queue tracks was playing, and a
  player that rejects track selection and seeking and accepts every other call.
\<close>

definition livingRoom :: playerPlus where
  "livingRoom = \<lparr>playerHost = ''192.168.1.2'', playerPort = ''1400'',
                  playerBaseUrl = ''http://192.168.1.2:1400''\<rparr>"

definition kitchen :: playerPlus where
  "kitchen = \<lparr>playerHost = ''192.168.1.3'', playerPort = ''1400'',
               playerBaseUrl = ''http://192.168.1.3:1400''\<rparr>"

fun pickyPlayer :: "unit env" where
  "pickyPlayer (SelectTrack p t) w = (None, w)"
| "pickyPlayer (Seek p t) w = (None, w)"
| "pickyPlayer c w = (Some Done, w)"

definition queueSnapshot :: groupSnapshot where
  "queueSnapshot =
     \<lparr>memberData =
        [\<lparr>urlHostname = ''192.168.1.2'', urlPort = ''1400'',
          baseUrl = ''http://192.168.1.2:1400'', volume = 20, mutestate = Some ''off''\<rparr>,
         \<lparr>urlHostname = ''192.168.1.3'', urlPort = ''1400'',
          baseUrl = ''http://192.168.1.3:1400'', volume = - 1, mutestate = None\<rparr>],
      playbackstate = ''playing'',
      snapWasPlaying = True,
      snapCurrentURI = ''x-rincon-queue:RINCON_A#0'',
      CurrentURIMetadata = [],
      snapNrTracks = 10,
      snapTrack = 3,
      snapRelTime = Some ''0:01:05'',
      snapTrackDuration = Some ''0:03:30''\<rparr>"

text \<open>The same snapshot with the captured state of the first member only.\<close>

definition shortSnapshot :: groupSnapshot where
  "shortSnapshot =
     \<lparr>memberData =
        [\<lparr>urlHostname = ''192.168.1.2'', urlPort = ''1400'',
          baseUrl = ''http://192.168.1.2:1400'', volume = 20, mutestate = Some ''off''\<rparr>],
      playbackstate = ''playing'',
      snapWasPlaying = True,
      snapCurrentURI = ''x-rincon-queue:RINCON_A#0'',
      CurrentURIMetadata = [],
      snapNrTracks = 10,
      snapTrack = 3,
      snapRelTime = Some ''0:01:05'',
      snapTrackDuration = Some ''0:03:30''\<rparr>"

definition queueRestoreLog :: "(call \<times> bool) list" where
  "queueRestoreLog =
     [(SetAVTransportURI livingRoom ''x-rincon-queue:RINCON_A#0'' [] True, True),
      (SelectTrack livingRoom 3, False),
      (Seek livingRoom ''0:01:05'', False),
      (SetVolume livingRoom (Some 20), True),
      (SetMuted livingRoom False, True)]"

section \<open>Notions for the statements about runs\<close>

text \<open>
  \<open>runsWithin P m\<close>: every run of \<open>m\<close> only adds calls that satisfy \<open>P\<close> to the log;
  when it returns, each call it added was answered or is best effort, and when it throws,
  it throws the rejection of a call that is not best effort. \<open>attempts c m\<close>: every run
  of \<open>m\<close> that returns has issued \<open>c\<close>. \<open>restoreCalls\<close> are the calls of the restore
  phase of a notification, each with the condition under which the code issues it.
\<close>

definition runsWithin :: "(call \<Rightarrow> bool) \<Rightarrow> ('w, 'a) action \<Rightarrow> bool" where
  "runsWithin P m =
     (\<forall>s r s'. m s = (r, s') \<longrightarrow>
        (\<exists>log. snd s' = snd s @ log \<and> (\<forall>e \<in> set log. P (fst e)) \<and>
           (case r of
              Inr x \<Rightarrow> (\<forall>e \<in> set log. snd e \<or> bestEffort (fst e))
            | Inl err \<Rightarrow> err = Rejected \<and> (\<exists>c. (c, False) \<in> set log \<and> \<not> bestEffort c))))"

definition attempts :: "call \<Rightarrow> ('w, 'a) action \<Rightarrow> bool" where
  "attempts c m =
     (\<forall>s r s'. m s = (r, s') \<longrightarrow> (\<forall>x. r = Inr x \<longrightarrow> (\<exists>ok. (c, ok) \<in> set (issued s s'))))"

definition restoreCalls :: "playerPlus \<Rightarrow> notificationSnapshot \<Rightarrow> call \<Rightarrow> bool" where
  "restoreCalls coordinator snapshot c =
     ((\<exists>p v. c = SetVolume p v) \<or>
      (\<exists>u m b. c = SetAVTransportURI coordinator u m b) \<or>
      (c = SelectTrack coordinator (Track (positionInfo snapshot)) \<and>
       trackDue (Track (positionInfo snapshot)) (NrTracks (mediaInfo snapshot))) \<or>
      (c = Seek coordinator (the (RelTime (positionInfo snapshot))) \<and>
       seekDue (RelTime (positionInfo snapshot)) (TrackDuration (positionInfo snapshot))) \<or>
      (c = Play coordinator \<and> wasPlaying snapshot))"

section \<open>Example notification\<close>

text \<open>
  A coordinator that is playing the third of ten tracks of a session-bound source when
  the notification arrives. Its reply body to an action is the action's name, which the
  example parser reads as the envelope of that action's response.
\<close>

fun notifyPlayer :: "unit env" where
  "notifyPlayer (GetCurrentState p) w = (Some (State ''playing''), w)"
| "notifyPlayer (GetMediaInfo p) w =
     (Some (Media \<lparr>CurrentURI = ''x-sonos-vli:RINCON_A:2,spotify:e934'',
                    CurrentURIMetaData = [], NrTracks = 10\<rparr>), w)"
| "notifyPlayer (GetPositionInfo p) w =
     (Some (Position \<lparr>Track = 3, RelTime = Some ''0:01:05'',
                       TrackDuration = Some ''0:03:30''\<rparr>), w)"
| "notifyPlayer (GetVolume p) w = (Some (Volume 20), w)"
| "notifyPlayer (SendToPlayerV1 origin endpoint service actionName args) w =
     (Some (Response (JObj [(''statusCode'', JNum 200), (''body'', JStr actionName)])), w)"
| "notifyPlayer c w = (Some Done, w)"

fun actionParse :: "jsval \<Rightarrow> jsval option" where
  "actionParse (JStr actionName) =
     Some (JObj [(''s:Envelope'',
       JObj [(''s:Body'',
         JObj [(''u:'' @ actionName @ ''Response'',
           JObj [(''xmlns:u'', JStr ''urn:schemas-upnp-org:service:AVTransport:1'')])])])])"
| "actionParse v = None"

definition exampleLibrary :: library where
  "exampleLibrary =
     \<lparr>ACTIONS_TEMPLATESV6 = exampleTemplates,
      parseStringPromise = actionParse,
      GenerateMetadata = (\<lambda>u. []),
      hhmmss2msec = (\<lambda>d. if d = ''00:00:05'' then 5000 else 0)\<rparr>"

definition dingOptions :: options where
  "dingOptions =
     \<lparr>uri = ''http://192.168.1.9/ding.mp3'', metadata = None, notifyVolume = 40,
      sameVolume = False, automaticDuration = False, duration = ''00:00:05''\<rparr>"

definition vliSnapshot :: notificationSnapshot where
  "vliSnapshot =
     \<lparr>wasPlaying = True,
      mediaInfo = \<lparr>CurrentURI = ''x-sonos-vli:RINCON_A:2,spotify:e934'',
                    CurrentURIMetaData = [], NrTracks = 10\<rparr>,
      positionInfo = \<lparr>Track = 3, RelTime = Some ''0:01:05'',
                       TrackDuration = Some ''0:03:30''\<rparr>,
      memberVolumes = (\<lambda>i. None)(0 \<mapsto> 20)\<rparr>"

definition snapshotLog :: "(call \<times> bool) list" where
  "snapshotLog =
     [(GetCurrentState livingRoom, True), (GetMediaInfo livingRoom, True),
      (GetPositionInfo livingRoom, True), (GetVolume livingRoom, True)]"

definition startLog :: "(call \<times> bool) list" where
  "startLog =
     [(SendToPlayerV1 ''http://192.168.1.2:1400'' ''/MediaRenderer/AVTransport/Control''
         (Some ''AVTransport'') ''SetAVTransportURI''
         (JObj [(''InstanceID'', JNum 0),
                (''CurrentURI'', JStr ''http://192.168.1.9/ding.mp3''),
                (''CurrentURIMetaData'', JStr [])]), True),
      (SetVolume livingRoom (Some 40), True),
      (SendToPlayerV1 ''http://192.168.1.2:1400'' ''/MediaRenderer/AVTransport/Control''
         (Some ''AVTransport'') ''Play''
         (JObj [(''InstanceID'', JNum 0), (''Speed'', JNum 1)]), True)]"

definition vliRestoreLog :: "(call \<times> bool) list" where
  "vliRestoreLog =
     [(SetVolume livingRoom (Some 20), True),
      (SetAVTransportURI livingRoom ''x-sonos-vli:RINCON_A:2,spotify:e934'' [] True, True),
      (SelectTrack livingRoom 3, True),
      (Seek livingRoom ''0:01:05'', True),
      (Play livingRoom, True)]"

section \<open>Properties\<close>

subsection \<open>encodeXml\<close>

lemma encodeXml_append: "encodeXml (xs @ ys) = encodeXml xs @ encodeXml ys"
  by (induction xs) simp_all

lemma xmlEntity_chars:
  "xmlSpecial c \<Longrightarrow> set (xmlEntity c) \<inter> {CHR ''<'', CHR ''>'', apostrophe, doubleQuote} = {}"
  by (auto simp: xmlSpecial_def xmlEntity_def apostrophe_def doubleQuote_def)

lemma encodeXml_clean:
  "set (encodeXml s) \<inter> {CHR ''<'', CHR ''>'', apostrophe, doubleQuote} = {}"
proof (induction s)
  case Nil
  show ?case by simp
next
  case (Cons c cs)
  show ?case
  proof (cases "xmlSpecial c")
    case True
    from xmlEntity_chars [OF True] Cons.IH show ?thesis
      by (simp add: True Int_Un_distrib2)
  next
    case False
    with Cons.IH show ?thesis
      by (auto simp: xmlSpecial_def)
  qed
qed

lemma encodeXml_unchanged: "list_all (\<lambda>c. \<not> xmlSpecial c) s \<Longrightarrow> encodeXml s = s"
  by (induction s) simp_all

lemma encodeXml_occurrence:
  "encodeXml (xs @ c # ys) =
     encodeXml xs @
     (if c = CHR ''<'' then ''&lt;''
      else if c = CHR ''>'' then ''&gt;''
      else if c = CHR ''&'' then ''&amp;''
      else if c = apostrophe then ''&apos;''
      else if c = doubleQuote then ''&quot;''
      else [c]) @
     encodeXml ys"
  by (simp add: encodeXml_append xmlSpecial_def xmlEntity_def)

text \<open>
  C10. For every input string, \<open>encodeXml\<close> replaces every occurrence of the characters
  \<open><\<close>, \<open>>\<close>, \<open>&\<close>, apostrophe and double quote by its XML entity and keeps every
  other character: wherever the input splits as \<open>xs @ c # ys\<close>, the output is the
  encoding of \<open>xs\<close>, then the entity of \<open>c\<close> (or \<open>c\<close> itself), then the encoding of
  \<open>ys\<close>. The output holds no \<open><\<close>, \<open>>\<close>, apostrophe or double quote, and an input
  with none of the five characters comes back unchanged.
\<close>

theorem encodeXml_entities:
  "(\<forall>xs c ys. s = xs @ c # ys \<longrightarrow>
      encodeXml s =
        encodeXml xs @
        (if c = CHR ''<'' then ''&lt;''
         else if c = CHR ''>'' then ''&gt;''
         else if c = CHR ''&'' then ''&amp;''
         else if c = apostrophe then ''&apos;''
         else if c = doubleQuote then ''&quot;''
         else [c]) @
        encodeXml ys) \<and>
   set (encodeXml s) \<inter> {CHR ''<'', CHR ''>'', apostrophe, doubleQuote} = {} \<and>
   (set s \<inter> {CHR ''<'', CHR ''>'', CHR ''&'', apostrophe, doubleQuote} = {} \<longrightarrow> encodeXml s = s)"
proof (intro conjI allI impI)
  fix xs c ys
  assume "s = xs @ c # ys"
  then show "encodeXml s =
        encodeXml xs @
        (if c = CHR ''<'' then ''&lt;''
         else if c = CHR ''>'' then ''&gt;''
         else if c = CHR ''&'' then ''&amp;''
         else if c = apostrophe then ''&apos;''
         else if c = doubleQuote then ''&quot;''
         else [c]) @
        encodeXml ys"
    by (simp only: encodeXml_occurrence)
next
  show "set (encodeXml s) \<inter> {CHR ''<'', CHR ''>'', apostrophe, doubleQuote} = {}"
    by (rule encodeXml_clean)
next
  assume "set s \<inter> {CHR ''<'', CHR ''>'', CHR ''&'', apostrophe, doubleQuote} = {}"
  then have "list_all (\<lambda>c. \<not> xmlSpecial c) s"
    by (auto simp: list_all_iff xmlSpecial_def)
  then show "encodeXml s = s"
    by (rule encodeXml_unchanged)
qed

theorem encodeXml_entities_witness:
  "encodeXml ''a<b&c'' = ''a&lt;b&amp;c'' \<and>
   set ''abc'' \<inter> {CHR ''<'', CHR ''>'', CHR ''&'', apostrophe, doubleQuote} = {} \<and>
   encodeXml ''abc'' = ''abc''"
proof -
  have plain: "set ''abc'' \<inter> {CHR ''<'', CHR ''>'', CHR ''&'', apostrophe, doubleQuote} = {}"
    by (simp add: apostrophe_def doubleQuote_def)
  note occ = conjunct1 [OF encodeXml_entities [of "''a<b&c''"], rule_format,
      of "''a''" "CHR ''<''" "''b&c''"]
  have first: "encodeXml ''a<b&c'' = ''a&lt;b&amp;c''"
    using occ by (simp add: xmlSpecial_def xmlEntity_def apostrophe_def doubleQuote_def)
  note same = conjunct2 [OF conjunct2 [OF encodeXml_entities [of "''abc''"]], rule_format,
      OF plain]
  from first plain same show ?thesis
    by (intro conjI)
qed

subsection \<open>getMusicServiceId\<close>

lemma getMusicServiceId_example:
  "getMusicServiceId
     ''x-rincon-cpcontainer:1004206ccatalog%2falbums%2fB07NW3FSWR%2f%23album_desc?sid=201&flags=8300&sn=14''
   = ''201''"
  by (simp add: getMusicServiceId_def substring_def)

text \<open>
  C4. Service-id extraction is to give the text between \<open>?sid=\<close> and \<open>&flags=\<close>, and the
  empty string whenever a marker is absent. On a string without \<open>?sid=\<close> the start
  position is \<open>-1 + 5 = 4\<close>, which passes the test \<open>positionStart > 1\<close>, so with
  \<open>&flags=\<close> further right than position 4 the function returns the characters from
  position 4 up to \<open>&flags=\<close> instead of the empty string.
\<close>

theorem getMusicServiceId_without_sid_marker:
  "indexOf ''x-rincon-cpcontainer:100&flags=8300&sn=14'' ''?sid='' = - 1 \<and>
   getMusicServiceId ''x-rincon-cpcontainer:100&flags=8300&sn=14'' = ''ncon-cpcontainer:100''"
  by (simp add: getMusicServiceId_def substring_def)

subsection \<open>getAllPlayerList\<close>

text \<open>
  C3. \<open>getAllPlayerList\<close> is to return the visible members of every group and to leave
  out a member flagged invisible. In \<open>pairGroup\<close> the second member carries
  \<open>Invisible = 1\<close>; the function copies that value into \<open>visible\<close>, finds it truthy and
  lists the member.
\<close>

theorem getAllPlayerList_lists_invisible_member:
  "Invisible (ZoneGroupMember pairGroup ! 1) = Some ''1'' \<and>
   getAllPlayerList exampleURL (Groups [pairGroup]) =
     Inr [\<lparr>urlHostname = ''192.168.1.2'', urlPort = ''1400'',
            baseUrl = ''http://192.168.1.2:1400'', sonosName = Some ''Living'',
            uuid = Some ''RINCON_A'', invisible = None, isCoordinator = True,
            groupIndex = 0\<rparr>,
          \<lparr>urlHostname = ''192.168.1.3'', urlPort = ''1400'',
            baseUrl = ''http://192.168.1.3:1400'', sonosName = Some ''Living'',
            uuid = Some ''RINCON_B'', invisible = None, isCoordinator = False,
            groupIndex = 0\<rparr>]"
  by (simp add: getAllPlayerList_def pairGroup_def exampleURL_def truthy_def httpUrl_def)

subsection \<open>getGroupMemberDataV2\<close>

lemma invisible_flag: "(if truthy (Invisible m) then Invisible m = Some ''1'' else False) = (Invisible m = Some ''1'')"
  by (auto simp: truthy_def)

lemma otherMembers_Nil: "otherMembers newURL h [] = []"
  by (simp add: otherMembers_def map_filter_simps)

lemma sortMembers_shape:
  "sortMembers newURL h ms acc = Inr res \<Longrightarrow> acc \<noteq> [] \<Longrightarrow>
     res = (if coordinatorEntries newURL h ms = [] then hd acc
            else asCoordinator (last (coordinatorEntries newURL h ms)) (hd acc))
           # tl acc @ otherMembers newURL h ms"
proof (induction ms arbitrary: acc)
  case Nil
  then show ?case by (simp add: coordinatorEntries_def otherMembers_Nil)
next
  case (Cons m ms)
  from Cons.prems(1) obtain u where u: "newURL (Location m) = Some u"
    by (cases "newURL (Location m)") simp_all
  show ?case
  proof (cases "hostname u = h")
    case False
    with Cons.prems u
    have run: "sortMembers newURL h ms
                 (acc @ [\<lparr>urlHostname = hostname u, urlPort = urlport u,
                           baseUrl = httpUrl (hostname u) (urlport u),
                           sonosName = Some (ZoneName m), uuid = Some (UUID m),
                           invisible = Some (Invisible m = Some ''1'')\<rparr>]) = Inr res"
      by (simp add: invisible_flag Let_def)
    from Cons.IH [OF run] Cons.prems(2) False u show ?thesis
      by (simp add: coordinatorEntries_def otherMembers_def map_filter_simps)
  next
    case True
    with Cons.prems u
    have run: "sortMembers newURL h ms (acc[0 := asCoordinator m (acc ! 0)]) = Inr res"
      by (simp add: invisible_flag Let_def asCoordinator_def)
    from Cons.prems(2) have hd_upd: "hd (acc[0 := asCoordinator m (acc ! 0)]) = asCoordinator m (hd acc)"
      and tl_upd: "tl (acc[0 := asCoordinator m (acc ! 0)]) = tl acc"
      by (cases acc; simp)+
    from Cons.prems(2) have ne: "acc[0 := asCoordinator m (acc ! 0)] \<noteq> []"
      by simp
    from Cons.IH [OF run ne] hd_upd tl_upd True u show ?thesis
      by (simp add: coordinatorEntries_def asCoordinator_def otherMembers_def map_filter_simps)
  qed
qed

lemma findGroup_range:
  "findGroup newURL h name byName gs i = Inr (Some (k, used)) \<Longrightarrow> i \<le> k \<and> k < i + length gs"
proof (induction gs arbitrary: i)
  case Nil
  then show ?case by simp
next
  case (Cons g gs)
  show ?case
  proof (cases "findMember newURL h name byName (ZoneGroupMember g)")
    case (Inl e)
    with Cons.prems show ?thesis by simp
  next
    case (Inr found)
    show ?thesis
    proof (cases found)
      case None
      with Inr Cons.prems have "findGroup newURL h name byName gs (Suc i) = Inr (Some (k, used))"
        by simp
      from Cons.IH [OF this] show ?thesis by simp
    next
      case (Some u)
      with Inr Cons.prems show ?thesis by simp
    qed
  qed
qed

text \<open>
  C1 (as amended). For every successful group resolution, the returned list is, for the
  matched group (the group the search loop stops at): the entry of the group's host,
  carrying the name and unique id of the last member listed at that host, when there is
  such a member and it is not flagged invisible (\<open>Invisible\<close> is not \<open>1\<close>);
  followed by the members listed at other hosts that are not flagged invisible, in the
  order of the reply. Hence, when the last member listed at the group's host carries the
  declared coordinator id and is not flagged invisible, the list is not empty and its
  member at index 0 has the coordinator id as uuid; and when that member is flagged
  invisible it is filtered out with the other invisible members, and the list is just the
  visible members at other hosts.
\<close>

theorem getGroupMemberDataV2_coordinator_first:
  assumes ok: "getGroupMemberDataV2 newURL (Groups gs) sonosPlayerHost playerName = Inr r"
    and found: "findGroup newURL sonosPlayerHost playerName
                  (case playerName of None \<Rightarrow> False | Some n \<Rightarrow> n \<noteq> []) gs 0 = Inr (Some (k, used))"
  shows "members r =
           hostEntry newURL (gs ! k) @
           filter (\<lambda>mb. invisible mb = Some False)
             (otherMembers newURL (host (gs ! k)) (ZoneGroupMember (gs ! k))) \<and>
         (coordinatorVisible newURL (gs ! k) \<longrightarrow>
            members r \<noteq> [] \<and> uuid (members r ! 0) = Some (Coordinator (gs ! k))) \<and>
         (coordinatorEntries newURL (host (gs ! k)) (ZoneGroupMember (gs ! k)) \<noteq> [] \<and>
          Invisible (last (coordinatorEntries newURL (host (gs ! k)) (ZoneGroupMember (gs ! k))))
            = Some ''1'' \<longrightarrow>
            members r =
              filter (\<lambda>mb. invisible mb = Some False)
                (otherMembers newURL (host (gs ! k)) (ZoneGroupMember (gs ! k))))"
proof -
  from findGroup_range [OF found] have k: "k < length gs" by simp
  from ok found obtain sortedMembers where
    sorted: "sortedGroupArray newURL gs (int k) = Inr sortedMembers" and
    r: "members r = filter (\<lambda>mb. invisible mb = Some False) sortedMembers"
    by (auto simp: getGroupMemberDataV2_def Let_def split: sum.splits)
  let ?g = "gs ! k"
  let ?ces = "coordinatorEntries newURL (host ?g) (ZoneGroupMember ?g)"
  let ?blank = "\<lparr>urlHostname = host ?g, urlPort = port ?g, baseUrl = httpUrl (host ?g) (port ?g),
        sonosName = None, uuid = None, invisible = None\<rparr>"
  from sorted k have run: "sortMembers newURL (host ?g) (ZoneGroupMember ?g) [?blank] = Inr sortedMembers"
    by (simp add: sortedGroupArray_def Let_def)
  from sortMembers_shape [OF run]
  have shape: "sortedMembers = (if ?ces = [] then ?blank else asCoordinator (last ?ces) ?blank)
                 # otherMembers newURL (host ?g) (ZoneGroupMember ?g)"
    by simp
  have first: "filter (\<lambda>mb. invisible mb = Some False)
                 [if ?ces = [] then ?blank else asCoordinator (last ?ces) ?blank]
               = hostEntry newURL ?g"
    by (simp add: hostEntry_def Let_def asCoordinator_def)
  from r shape first
  have list: "members r = hostEntry newURL ?g @
           filter (\<lambda>mb. invisible mb = Some False)
             (otherMembers newURL (host ?g) (ZoneGroupMember ?g))"
  proof -
    let ?x = "if ?ces = [] then ?blank else asCoordinator (last ?ces) ?blank"
    let ?others = "otherMembers newURL (host ?g) (ZoneGroupMember ?g)"
    from shape have "sortedMembers = [?x] @ ?others"
      by simp
    then have "filter (\<lambda>mb. invisible mb = Some False) sortedMembers =
        filter (\<lambda>mb. invisible mb = Some False) [?x] @
        filter (\<lambda>mb. invisible mb = Some False) ?others"
      by (simp only: filter_append)
    with r first show ?thesis
      by (simp only:)
  qed
  have visible: "coordinatorVisible newURL ?g \<longrightarrow>
            members r \<noteq> [] \<and> uuid (members r ! 0) = Some (Coordinator ?g)"
  proof
    assume "coordinatorVisible newURL ?g"
    then have "hostEntry newURL ?g =
       [\<lparr>urlHostname = host ?g, urlPort = port ?g, baseUrl = httpUrl (host ?g) (port ?g),
          sonosName = Some (ZoneName (last ?ces)), uuid = Some (Coordinator ?g),
          invisible = Some False\<rparr>]"
      by (simp add: coordinatorVisible_def hostEntry_def Let_def)
    with list show "members r \<noteq> [] \<and> uuid (members r ! 0) = Some (Coordinator ?g)"
      by simp
  qed
  have hidden: "?ces \<noteq> [] \<and> Invisible (last ?ces) = Some ''1'' \<longrightarrow>
            members r = filter (\<lambda>mb. invisible mb = Some False)
                          (otherMembers newURL (host ?g) (ZoneGroupMember ?g))"
  proof
    assume "?ces \<noteq> [] \<and> Invisible (last ?ces) = Some ''1''"
    then have "hostEntry newURL ?g = []"
      by (simp add: hostEntry_def Let_def)
    with list show "members r = filter (\<lambda>mb. invisible mb = Some False)
                          (otherMembers newURL (host ?g) (ZoneGroupMember ?g))"
      by simp
  qed
  from list visible hidden show ?thesis
    by (intro conjI)
qed

theorem getGroupMemberDataV2_coordinator_first_witness:
  "getGroupMemberDataV2 exampleURL (Groups [pairGroup]) ''192.168.1.2'' None = Inr pairResult \<and>
   coordinatorVisible exampleURL ([pairGroup] ! 0) \<and>
   members pairResult \<noteq> [] \<and>
   uuid (members pairResult ! 0) = Some (Coordinator ([pairGroup] ! 0))"
proof -
  have ok: "getGroupMemberDataV2 exampleURL (Groups [pairGroup]) ''192.168.1.2'' None = Inr pairResult"
    by (simp add: getGroupMemberDataV2_def sortedGroupArray_def pairGroup_def exampleURL_def
        truthy_def httpUrl_def pairResult_def)
  have found: "findGroup exampleURL ''192.168.1.2'' None
                 (case None :: string option of None \<Rightarrow> False | Some n \<Rightarrow> n \<noteq> []) [pairGroup] 0
               = Inr (Some (0, ''192.168.1.2''))"
    by (simp add: pairGroup_def exampleURL_def truthy_def)
  have vis: "coordinatorVisible exampleURL ([pairGroup] ! 0)"
    by (simp add: coordinatorVisible_def coordinatorEntries_def pairGroup_def exampleURL_def)
  note parts = getGroupMemberDataV2_coordinator_first [OF ok found]
  note first = mp [OF conjunct1 [OF conjunct2 [OF parts]] vis]
  from first ok vis show ?thesis
    by (intro conjI) simp_all
qed

text \<open>
  C1 as stated fails in three ways. Where the coordinator is flagged invisible, it is
  sorted to the front and then filtered out, and index 0 is the next visible member.
  Where the group's host is the address of a member other than the declared coordinator,
  that member is at index 0 and the visible coordinator at index 1: the code orders by
  host and never reads \<open>Coordinator\<close>. Where no member is listed at the group's host,
  the first entry stays without a visibility and is filtered out, and the members keep
  the order of the reply.
\<close>

theorem getGroupMemberDataV2_hidden_coordinator:
  "Coordinator hiddenCoordinatorGroup = ''RINCON_A'' \<and>
   getGroupMemberDataV2 exampleURL (Groups [hiddenCoordinatorGroup]) ''192.168.1.3'' None =
     Inr \<lparr>playerIndex = 0,
          members = [\<lparr>urlHostname = ''192.168.1.3'', urlPort = ''1400'',
                      baseUrl = ''http://192.168.1.3:1400'', sonosName = Some ''Kitchen'',
                      uuid = Some ''RINCON_B'', invisible = Some False\<rparr>],
          groupId = ''RINCON_A:1'', groupName = ''Living''\<rparr> \<and>
   Coordinator mismatchGroup = ''RINCON_A'' \<and>
   getGroupMemberDataV2 exampleURL (Groups [mismatchGroup]) ''192.168.1.2'' None =
     Inr \<lparr>playerIndex = 1,
          members = [\<lparr>urlHostname = ''192.168.1.3'', urlPort = ''1400'',
                      baseUrl = ''http://192.168.1.3:1400'', sonosName = Some ''Kitchen'',
                      uuid = Some ''RINCON_B'', invisible = Some False\<rparr>,
                     \<lparr>urlHostname = ''192.168.1.2'', urlPort = ''1400'',
                      baseUrl = ''http://192.168.1.2:1400'', sonosName = Some ''Living'',
                      uuid = Some ''RINCON_A'', invisible = Some False\<rparr>],
          groupId = ''RINCON_A:1'', groupName = ''Living''\<rparr> \<and>
   Coordinator strayHostGroup = ''RINCON_A'' \<and>
   getGroupMemberDataV2 exampleURL (Groups [strayHostGroup]) ''192.168.1.2'' None =
     Inr \<lparr>playerIndex = 1,
          members = [\<lparr>urlHostname = ''192.168.1.3'', urlPort = ''1400'',
                      baseUrl = ''http://192.168.1.3:1400'', sonosName = Some ''Kitchen'',
                      uuid = Some ''RINCON_B'', invisible = Some False\<rparr>,
                     \<lparr>urlHostname = ''192.168.1.2'', urlPort = ''1400'',
                      baseUrl = ''http://192.168.1.2:1400'', sonosName = Some ''Living'',
                      uuid = Some ''RINCON_A'', invisible = Some False\<rparr>],
          groupId = ''RINCON_A:1'', groupName = ''Living''\<rparr>"
  by (simp add: getGroupMemberDataV2_def sortedGroupArray_def hiddenCoordinatorGroup_def
      mismatchGroup_def strayHostGroup_def exampleURL_def truthy_def httpUrl_def)

subsection \<open>executeActionV6\<close>

lemma isValidProperty_single:
  "isValidProperty (JObj kvs) [p] = (\<exists>v. map_of kvs p = Some v \<and> v \<noteq> JUndefined \<and> v \<noteq> JNull)"
  by (auto simp: isValidProperty_def split: option.splits)

text \<open>
  C6. For every endpoint and action with a template and every argument object that
  lacks a name the template requires, \<open>executeActionV6\<close> throws the missing-property
  error for a required name that fails the presence test, and it does so before the
  transport: the world and the log of calls are returned as they were.
\<close>

theorem executeActionV6_missing_argument:
  assumes endpoint: "templates endpoint = Some endpointActions"
    and action: "endpointActions actionName = Some template"
    and required: "property \<in> set (inArgs template)"
    and absent: "map_of actionInArgs property = None"
  shows "\<exists>missing \<in> set (inArgs template).
           \<not> isValidProperty (JObj actionInArgs) [missing] \<and>
           executeActionV6 env templates parseXml playerUrlOrigin endpoint actionName
             (JObj actionInArgs) s
           = (Inl (Nrcsp (''property '' @ missing @ '' is missing}'')), s)"
proof -
  let ?P = "\<lambda>property. \<not> isValidProperty (JObj actionInArgs) [property]"
  from absent have "?P property"
    by (simp add: isValidProperty_single)
  with required have "find ?P (inArgs template) \<noteq> None"
    by (auto simp: find_None_iff)
  then obtain missing where found: "find ?P (inArgs template) = Some missing"
    by auto
  then have mem: "missing \<in> set (inArgs template)" and bad: "?P missing"
    by (auto simp: find_Some_iff)
  from endpoint action found
  have "executeActionV6 env templates parseXml playerUrlOrigin endpoint actionName
             (JObj actionInArgs) s
           = (Inl (Nrcsp (''property '' @ missing @ '' is missing}'')), s)"
    by (simp add: executeActionV6_def throw_def)
  with mem bad show ?thesis by blast
qed

theorem executeActionV6_missing_argument_witness:
  "\<exists>missing \<in> set [''InstanceID'', ''CurrentURI'', ''CurrentURIMetaData''].
     \<not> isValidProperty
         (JObj [(''InstanceID'', JNum 0), (''CurrentURI'', JStr ''http://192.168.1.9/ding.mp3'')])
         [missing] \<and>
     executeActionV6 examplePlayer exampleTemplates exampleParse ''http://192.168.1.2:1400''
       ''/MediaRenderer/AVTransport/Control'' ''SetAVTransportURI''
       (JObj [(''InstanceID'', JNum 0), (''CurrentURI'', JStr ''http://192.168.1.9/ding.mp3'')])
       ((), [])
     = (Inl (Nrcsp (''property '' @ missing @ '' is missing}'')), ((), []))"
proof -
  let ?t = "\<lparr>inArgs = [''InstanceID'', ''CurrentURI'', ''CurrentURIMetaData''], outArgs = []\<rparr>"
  let ?args = "[(''InstanceID'', JNum 0), (''CurrentURI'', JStr ''http://192.168.1.9/ding.mp3'')]"
  have e: "exampleTemplates ''/MediaRenderer/AVTransport/Control'' = Some avTransportActions"
    by (simp add: exampleTemplates_def)
  have a: "avTransportActions ''SetAVTransportURI'' = Some ?t"
    by (simp add: avTransportActions_def)
  have r: "''CurrentURIMetaData'' \<in> set (inArgs ?t)"
    by simp
  have m: "map_of ?args ''CurrentURIMetaData'' = None"
    by simp
  from executeActionV6_missing_argument
         [where templates = exampleTemplates and endpointActions = avTransportActions
            and template = "?t" and actionInArgs = "?args" and env = examplePlayer
            and parseXml = exampleParse and playerUrlOrigin = "''http://192.168.1.2:1400''"
            and s = "((), [])", OF e a r m]
  show ?thesis by simp
qed

lemma decodeResponse_Inr:
  assumes "decodeResponse outs serviceName actionName bodyXml = Inr v"
  shows "(outs = [] \<longrightarrow> v = JBool True) \<and>
         (length outs = 1 \<longrightarrow>
            v = getProp (deleteProp (getNestedProperty bodyXml (responseKey actionName)) ''xmlns:u'') (outs ! 0)) \<and>
         (1 < length outs \<longrightarrow>
            v = deleteProp (getNestedProperty bodyXml (responseKey actionName)) ''xmlns:u'') \<and>
         (outs \<noteq> [] \<longrightarrow>
            (\<forall>property \<in> set outs.
               isValidProperty (getNestedProperty bodyXml (responseKey actionName)) [property]))"
  using assms
  by (auto simp: decodeResponse_def Let_def find_None_iff split: if_splits option.splits)

lemma if_apply: "(if c then f else g) x = (if c then f x else g x)"
  by simp

lemma case_option_apply:
  "(case opt of None \<Rightarrow> f | Some y \<Rightarrow> g y) x = (case opt of None \<Rightarrow> f x | Some y \<Rightarrow> g y x)"
  by (cases opt) simp_all

lemma case_sum_apply:
  "(case t of Inl a \<Rightarrow> f a | Inr b \<Rightarrow> g b) x = (case t of Inl a \<Rightarrow> f a x | Inr b \<Rightarrow> g b x)"
  by (cases t) simp_all

lemma throw_Inr [simp]: "throw e s = (Inr v, s') \<longleftrightarrow> False"
  by (simp add: throw_def)

lemma ret_Inr [simp]: "ret x s = (Inr v, s') \<longleftrightarrow> x = v \<and> s = s'"
  by (auto simp: ret_def)

lemma bnd_Inr:
  "bnd m f s = (Inr v, s') \<longleftrightarrow> (\<exists>x s1. m s = (Inr x, s1) \<and> f x s1 = (Inr v, s'))"
  by (auto simp: bnd_def split: prod.splits sum.splits)

lemma request_Inr:
  "request env c s = (Inr r, s') \<longleftrightarrow>
     (\<exists>w'. env c (fst s) = (Some r, w') \<and> s' = (w', snd s @ [(c, True)]))"
  by (auto simp: request_def split: prod.splits option.splits)

lemma response_only:
  "(case r of Response response \<Rightarrow> ret response | _ \<Rightarrow> throw TypeError) s1 = (Inr x, s')
     \<longleftrightarrow> r = Response x \<and> s' = s1"
  by (cases r) auto

lemma sendToPlayerV1_Inr:
  "sendToPlayerV1 env origin endpoint serviceName actionName args s = (Inr response, s') \<longleftrightarrow>
     (\<exists>w'. env (SendToPlayerV1 origin endpoint serviceName actionName args) (fst s)
              = (Some (Response response), w') \<and>
           s' = (w', snd s @ [(SendToPlayerV1 origin endpoint serviceName actionName args, True)]))"
  by (auto simp: sendToPlayerV1_def bnd_Inr request_Inr response_only)

lemma checked_Inr:
  "(case t of Inl e \<Rightarrow> throw e | Inr result \<Rightarrow> ret result) s1 = (Inr v, s')
     \<longleftrightarrow> t = Inr v \<and> s' = s1"
  by (cases t) auto

lemma executeActionV6_Inr:
  assumes "templates endpoint = Some endpointActions"
    and "endpointActions actionName = Some template"
    and "executeActionV6 env templates parseXml playerUrlOrigin endpoint actionName
            actionInArgs s = (Inr v, s')"
  shows "\<exists>response.
           sendToPlayerV1 env playerUrlOrigin endpoint (serviceNameOf endpoint) actionName
             actionInArgs s = (Inr response, s') \<and>
           checkResponse parseXml (outArgs template) (serviceNameOf endpoint) actionName response
             = Inr v"
proof (cases "find (\<lambda>property. \<not> isValidProperty actionInArgs [property]) (inArgs template)")
  case None
  with assms show ?thesis
    by (auto simp: executeActionV6_def Let_def bnd_Inr checked_Inr)
next
  case (Some property)
  with assms show ?thesis
    by (simp add: executeActionV6_def)
qed

lemma checkResponse_Inr:
  assumes "checkResponse parseXml outs serviceName actionName response = Inr v"
  shows "\<exists>bodyXml. getProp response ''statusCode'' = JNum 200 \<and>
           parseXml (getProp response ''body'') = Some bodyXml \<and>
           decodeResponse outs serviceName actionName bodyXml = Inr v"
  using assms
  by (auto simp: checkResponse_def split: if_splits option.splits)

lemma decodeResponse_namespace:
  "decodeResponse outs serviceName actionName bodyXml = Inr v \<Longrightarrow>
     getProp (getNestedProperty bodyXml (responseKey actionName)) ''xmlns:u'' =
       JStr (expectedResponseValue serviceName)"
  by (auto simp: decodeResponse_def Let_def split: if_splits)

text \<open>
  C7 (as amended). For every call of \<open>executeActionV6\<close> that succeeds, the transport
  answered with status 200 and a body whose response node carries the expected namespace;
  with no expected output the result is \<open>true\<close>; with exactly one it is the value of
  that output in the response node; with more than one it is the response node without
  its namespace attribute, in which every expected output is present (the node's other
  elements stay in the result).
\<close>

theorem executeActionV6_result:
  assumes run: "executeActionV6 env templates parseXml playerUrlOrigin endpoint actionName
                  actionInArgs s = (Inr v, s')"
    and endpoint: "templates endpoint = Some endpointActions"
    and action: "endpointActions actionName = Some template"
  shows "\<exists>response bodyXml.
           env (SendToPlayerV1 playerUrlOrigin endpoint (serviceNameOf endpoint) actionName
                  actionInArgs) (fst s) = (Some (Response response), fst s') \<and>
           getProp response ''statusCode'' = JNum 200 \<and>
           parseXml (getProp response ''body'') = Some bodyXml \<and>
           getProp (getNestedProperty bodyXml (responseKey actionName)) ''xmlns:u'' =
             JStr (expectedResponseValue (serviceNameOf endpoint)) \<and>
           (outArgs template = [] \<longrightarrow> v = JBool True) \<and>
           (length (outArgs template) = 1 \<longrightarrow>
              v = getProp (deleteProp (getNestedProperty bodyXml (responseKey actionName))
                             ''xmlns:u'') (outArgs template ! 0)) \<and>
           (1 < length (outArgs template) \<longrightarrow>
              v = deleteProp (getNestedProperty bodyXml (responseKey actionName)) ''xmlns:u'') \<and>
           (outArgs template \<noteq> [] \<longrightarrow>
              (\<forall>property \<in> set (outArgs template).
                 isValidProperty (getNestedProperty bodyXml (responseKey actionName))
                   [property]))"
proof -
  from executeActionV6_Inr [OF endpoint action run] obtain response where
    sent: "sendToPlayerV1 env playerUrlOrigin endpoint (serviceNameOf endpoint) actionName
             actionInArgs s = (Inr response, s')" and
    checked: "checkResponse parseXml (outArgs template) (serviceNameOf endpoint) actionName
                response = Inr v"
    by blast
  from checkResponse_Inr [OF checked] obtain bodyXml where
    status: "getProp response ''statusCode'' = JNum 200" and
    parsed: "parseXml (getProp response ''body'') = Some bodyXml" and
    decoded: "decodeResponse (outArgs template) (serviceNameOf endpoint) actionName bodyXml = Inr v"
    by blast
  from sent have "env (SendToPlayerV1 playerUrlOrigin endpoint (serviceNameOf endpoint) actionName
                  actionInArgs) (fst s) = (Some (Response response), fst s')"
    by (auto simp: sendToPlayerV1_Inr)
  with status parsed decodeResponse_namespace [OF decoded] decodeResponse_Inr [OF decoded]
  show ?thesis
    by blast
qed

lemma serviceNameOf_avTransport:
  "serviceNameOf ''/MediaRenderer/AVTransport/Control'' = Some ''AVTransport''"
  by (simp add: serviceNameOf_def)

lemma settings_run:
  "executeActionV6 examplePlayer exampleTemplates exampleParse ''http://192.168.1.2:1400''
     ''/MediaRenderer/AVTransport/Control'' ''GetTransportSettings''
     (JObj [(''InstanceID'', JNum 0)]) ((), [])
   = (Inr settingsResult, ((), [(settingsCall, True)]))"
  by (simp add: executeActionV6_def exampleTemplates_def avTransportActions_def
      isValidProperty_def serviceNameOf_avTransport Let_def bnd_def sendToPlayerV1_def request_def
      ret_def throw_def checkResponse_def settingsResponse_def exampleParse_def settingsXml_def
      decodeResponse_def responseKey_def getNestedProperty_def expectedResponseValue_def
      settingsResult_def settingsCall_def)

theorem executeActionV6_result_witness:
  "executeActionV6 examplePlayer exampleTemplates exampleParse ''http://192.168.1.2:1400''
     ''/MediaRenderer/AVTransport/Control'' ''GetTransportSettings''
     (JObj [(''InstanceID'', JNum 0)]) ((), [])
   = (Inr settingsResult, ((), [(settingsCall, True)])) \<and>
   settingsResult =
     deleteProp (getNestedProperty settingsXml (responseKey ''GetTransportSettings'')) ''xmlns:u'' \<and>
   isValidProperty (getNestedProperty settingsXml (responseKey ''GetTransportSettings''))
     [''PlayMode''] \<and>
   isValidProperty (getNestedProperty settingsXml (responseKey ''GetTransportSettings''))
     [''RecQualityMode'']"
proof -
  let ?t = "\<lparr>inArgs = [''InstanceID''], outArgs = [''PlayMode'', ''RecQualityMode'']\<rparr>"
  have e: "exampleTemplates ''/MediaRenderer/AVTransport/Control'' = Some avTransportActions"
    by (simp add: exampleTemplates_def)
  have a: "avTransportActions ''GetTransportSettings'' = Some ?t"
    by (simp add: avTransportActions_def)
  from executeActionV6_result [OF settings_run e a] obtain response bodyXml where
    reply: "examplePlayer
              (SendToPlayerV1 ''http://192.168.1.2:1400'' ''/MediaRenderer/AVTransport/Control''
                 (serviceNameOf ''/MediaRenderer/AVTransport/Control'') ''GetTransportSettings''
                 (JObj [(''InstanceID'', JNum 0)])) () = (Some (Response response), ())" and
    parsed: "exampleParse (getProp response ''body'') = Some bodyXml" and
    whole: "1 < length (outArgs ?t) \<longrightarrow>
              settingsResult =
                deleteProp (getNestedProperty bodyXml (responseKey ''GetTransportSettings''))
                  ''xmlns:u''" and
    present: "outArgs ?t \<noteq> [] \<longrightarrow>
              (\<forall>property \<in> set (outArgs ?t).
                 isValidProperty (getNestedProperty bodyXml (responseKey ''GetTransportSettings''))
                   [property])"
    by auto
  from reply have "response = settingsResponse"
    by simp
  with parsed have "bodyXml = settingsXml"
    by (simp add: settingsResponse_def exampleParse_def)
  with whole present settings_run show ?thesis
    by simp
qed

text \<open>
  C7 as stated fails on "exactly the expected output keys": an element of the response
  node that the template does not name is returned with the others.
\<close>

theorem executeActionV6_extra_output:
  "avTransportActions ''GetTransportSettings'' =
     Some \<lparr>inArgs = [''InstanceID''], outArgs = [''PlayMode'', ''RecQualityMode'']\<rparr> \<and>
   executeActionV6 examplePlayer exampleTemplates exampleParse ''http://192.168.1.2:1400''
     ''/MediaRenderer/AVTransport/Control'' ''GetTransportSettings''
     (JObj [(''InstanceID'', JNum 0)]) ((), [])
   = (Inr (JObj [(''PlayMode'', JStr ''NORMAL''),
                 (''RecQualityMode'', JStr ''NOT_IMPLEMENTED''),
                 (''Extra'', JStr ''1'')]),
      ((), [(settingsCall, True)]))"
  by (simp add: executeActionV6_def exampleTemplates_def avTransportActions_def
      isValidProperty_def serviceNameOf_avTransport Let_def bnd_def sendToPlayerV1_def request_def
      ret_def throw_def checkResponse_def settingsResponse_def exampleParse_def settingsXml_def
      decodeResponse_def responseKey_def getNestedProperty_def expectedResponseValue_def
      settingsCall_def)

subsection \<open>didlXmlToArray and processingType\<close>



text \<open>
  C5 (as amended). For every call of \<open>didlXmlToArray\<close> with an absent or empty input
  (\<open>undefined\<close>, \<open>null\<close> or the empty string) the error "DIDL-Light input is missing"
  is raised, before the parser is called. The empty sequence is the result when the
  input and the item name are present and the parsed document has no entry of that name
  under \<open>DIDL-Lite\<close>.
\<close>

theorem didlXmlToArray_input_guard:
  "didlXmlToArray parseXml services JUndefined itemName
     = Inl (Nrcsp ''DIDL-Light input is missing'') \<and>
   didlXmlToArray parseXml services JNull itemName
     = Inl (Nrcsp ''DIDL-Light input is missing'') \<and>
   didlXmlToArray parseXml services (JStr []) itemName
     = Inl (Nrcsp ''DIDL-Light input is missing'') \<and>
   (isTruthyAndNotEmptyString didlXml \<and> itemName \<noteq> [] \<and>
    parseXml didlXml = Some didlJson \<and> isTruthyAndNotEmptyString didlJson \<and>
    \<not> isValidProperty didlJson [''DIDL-Lite'', itemName]
    \<longrightarrow> didlXmlToArray parseXml services didlXml itemName = Inr [])"
  by (simp add: didlXmlToArray_def isTruthyAndNotEmptyString_def)

theorem didlXmlToArray_input_guard_witness:
  "isTruthyAndNotEmptyString (JStr ''<DIDL-Lite></DIDL-Lite>'') \<and>
   emptyListParse (JStr ''<DIDL-Lite></DIDL-Lite>'') = Some (JObj [(''DIDL-Lite'', JStr [])]) \<and>
   \<not> isValidProperty (JObj [(''DIDL-Lite'', JStr [])]) [''DIDL-Lite'', ''item''] \<and>
   didlXmlToArray emptyListParse [] (JStr ''<DIDL-Lite></DIDL-Lite>'') ''item'' = Inr []"
proof -
  have a: "isTruthyAndNotEmptyString (JStr ''<DIDL-Lite></DIDL-Lite>'')"
    by (simp add: isTruthyAndNotEmptyString_def)
  have b: "''item'' \<noteq> []"
    by simp
  have c: "emptyListParse (JStr ''<DIDL-Lite></DIDL-Lite>'') = Some (JObj [(''DIDL-Lite'', JStr [])])"
    by (simp add: emptyListParse_def)
  have d: "isTruthyAndNotEmptyString (JObj [(''DIDL-Lite'', JStr [])])"
    by (simp add: isTruthyAndNotEmptyString_def)
  have e: "\<not> isValidProperty (JObj [(''DIDL-Lite'', JStr [])]) [''DIDL-Lite'', ''item'']"
    by (simp add: isValidProperty_def)
  note guard = didlXmlToArray_input_guard
      [where parseXml = emptyListParse and services = "[]"
         and didlXml = "JStr ''<DIDL-Lite></DIDL-Lite>''" and itemName = "''item''"
         and didlJson = "JObj [(''DIDL-Lite'', JStr [])]"]
  from guard a b c d e
  have "didlXmlToArray emptyListParse [] (JStr ''<DIDL-Lite></DIDL-Lite>'') ''item'' = Inr []"
    by (elim conjE) (erule mp, intro conjI)
  with a c e show ?thesis
    by (intro conjI)
qed

text \<open>C5 as stated fails: the absent and the empty input are rejected with an error.\<close>

theorem didlXmlToArray_empty_input:
  "didlXmlToArray emptyListParse [] JUndefined ''item''
     = Inl (Nrcsp ''DIDL-Light input is missing'') \<and>
   didlXmlToArray emptyListParse [] (JStr []) ''item''
     = Inl (Nrcsp ''DIDL-Light input is missing'')"
  by (simp add: didlXmlToArray_def isTruthyAndNotEmptyString_def)




















subsection \<open>restoreGroupSnapshot\<close>

lemma perform_log:
  assumes "perform env c s = (r, s')"
  shows "(r = Inr () \<and> snd s' = snd s @ [(c, True)]) \<or>
         (r = Inl Rejected \<and> snd s' = snd s @ [(c, False)])"
  using assms
  by (auto simp: perform_def bnd_def request_def ret_def split: prod.splits option.splits)

lemma catchIgnore_perform_log:
  assumes "catchIgnore (perform env c) s = (r, s')"
  shows "r = Inr () \<and> (\<exists>ok. snd s' = snd s @ [(c, ok)])"
proof -
  obtain r1 s1 where p: "perform env c s = (r1, s1)"
    by (cases "perform env c s")
  from perform_log [OF p] p assms show ?thesis
    by (auto simp: catchIgnore_def)
qed

lemma selectTrackBestEffort_log:
  assumes "selectTrackBestEffort env p t n s = (r, s')"
  shows "r = Inr () \<and>
         (\<exists>ok. snd s' = snd s @ (if t > 1 \<and> n > 1 then [(SelectTrack p t, ok)] else []))"
proof (cases "t \<noteq> 0 \<and> t > 1 \<and> n > 1")
  case True
  with assms have "catchIgnore (perform env (SelectTrack p t)) s = (r, s')"
    by (simp add: selectTrackBestEffort_def whenever_def)
  from catchIgnore_perform_log [OF this] True show ?thesis
    by auto
next
  case False
  with assms show ?thesis
    by (auto simp: selectTrackBestEffort_def whenever_def ret_def)
qed

lemma seekBestEffort_log:
  assumes "seekBestEffort env p rel dur s = (r, s')"
  shows "r = Inr () \<and>
         (\<exists>ok. snd s' = snd s @ (if seekDue rel dur then [(Seek p (the rel), ok)] else []))"
proof (cases "seekDue rel dur")
  case True
  then obtain t where t: "rel = Some t" "t \<noteq> []" "dur \<noteq> Some ''0:00:00''"
    by (auto simp: seekDue_def split: option.splits)
  with assms have "catchIgnore (perform env (Seek p t)) s = (r, s')"
    by (simp add: seekBestEffort_def whenever_def)
  from catchIgnore_perform_log [OF this] True t show ?thesis
    by auto
next
  case False
  with assms show ?thesis
    by (auto simp: seekBestEffort_def seekDue_def whenever_def ret_def split: option.splits)
qed

lemma restoreMember_log:
  assumes "restoreMember env ps md i s = (r, s')"
  shows "\<exists>pre fail. snd s' = snd s @ answered pre @ fail \<and>
           set pre \<subseteq> set (planAt ps md i) \<and>
           (case r of
              Inr u \<Rightarrow> fail = [] \<and> pre = planAt ps md i \<and> i < length md
            | Inl e \<Rightarrow> (e = TypeError \<and> fail = [] \<and> length md \<le> i) \<or>
                       (e = Rejected \<and> (\<exists>c \<in> set (planAt ps md i). fail = [(c, False)])))"
proof (cases "length md \<le> i")
  case True
  with assms have "r = Inl TypeError" "s' = s"
    by (simp_all add: restoreMember_def throw_def)
  then show ?thesis
    using True by (intro exI [of _ "[]"]) (simp add: answered_def)
next
  case False
  let ?v = "SetVolume (ps ! i) (Some (volume (md ! i)))"
  let ?m = "SetMuted (ps ! i) (mutestate (md ! i) = Some ''on'')"
  from False have plan: "planAt ps md i = memberPlan (ps ! i) (md ! i)"
    by (simp add: planAt_def)
  obtain r1 s1 where first: "whenever (volume (md ! i) \<noteq> - 1) (perform env ?v) s = (r1, s1)"
    by (cases "whenever (volume (md ! i) \<noteq> - 1) (perform env ?v) s")
  show ?thesis
  proof (cases "volume (md ! i) \<noteq> - 1")
    case vol: True
    with first have p1: "perform env ?v s = (r1, s1)"
      by (simp add: whenever_def)
    from perform_log [OF p1] show ?thesis
    proof
      assume ok1: "r1 = Inr () \<and> snd s1 = snd s @ [(?v, True)]"
      with assms False first
      have second: "whenever (mutestate (md ! i) \<noteq> None) (perform env ?m) s1 = (r, s')"
        by (simp add: restoreMember_def bnd_def)
      show ?thesis
      proof (cases "mutestate (md ! i) \<noteq> None")
        case mute: True
        with second have p2: "perform env ?m s1 = (r, s')"
          by (simp add: whenever_def)
        from perform_log [OF p2] show ?thesis
        proof
          assume "r = Inr () \<and> snd s' = snd s1 @ [(?m, True)]"
          with ok1 vol mute False plan show ?thesis
            by (intro exI [of _ "[?v, ?m]"] exI [of _ "[]"])
               (auto simp: answered_def memberPlan_def)
        next
          assume "r = Inl Rejected \<and> snd s' = snd s1 @ [(?m, False)]"
          with ok1 vol mute False plan show ?thesis
            by (intro exI [of _ "[?v]"] exI [of _ "[(?m, False)]"])
               (auto simp: answered_def memberPlan_def)
        qed
      next
        case mute: False
        with second have "r = Inr ()" "s' = s1"
          by (simp_all add: whenever_def ret_def)
        with ok1 vol mute False plan show ?thesis
          by (intro exI [of _ "[?v]"] exI [of _ "[]"])
             (auto simp: answered_def memberPlan_def)
      qed
    next
      assume bad1: "r1 = Inl Rejected \<and> snd s1 = snd s @ [(?v, False)]"
      with assms False first have "r = Inl Rejected" "s' = s1"
        by (simp_all add: restoreMember_def bnd_def)
      with bad1 vol False plan show ?thesis
        by (intro exI [of _ "[]"] exI [of _ "[(?v, False)]"])
           (auto simp: answered_def memberPlan_def)
    qed
  next
    case vol: False
    with first have skip: "r1 = Inr ()" "s1 = s"
      by (simp_all add: whenever_def ret_def)
    with assms False first
    have second: "whenever (mutestate (md ! i) \<noteq> None) (perform env ?m) s = (r, s')"
      by (simp add: restoreMember_def bnd_def)
    show ?thesis
    proof (cases "mutestate (md ! i) \<noteq> None")
      case mute: True
      with second have p2: "perform env ?m s = (r, s')"
        by (simp add: whenever_def)
      from perform_log [OF p2] show ?thesis
      proof
        assume "r = Inr () \<and> snd s' = snd s @ [(?m, True)]"
        with vol mute False plan show ?thesis
          by (intro exI [of _ "[?m]"] exI [of _ "[]"])
             (auto simp: answered_def memberPlan_def)
      next
        assume "r = Inl Rejected \<and> snd s' = snd s @ [(?m, False)]"
        with vol mute False plan show ?thesis
          by (intro exI [of _ "[]"] exI [of _ "[(?m, False)]"])
             (auto simp: answered_def memberPlan_def)
      qed
    next
      case mute: False
      with second have "r = Inr ()" "s' = s"
        by (simp_all add: whenever_def ret_def)
      with vol mute False plan show ?thesis
        by (intro exI [of _ "[]"] exI [of _ "[]"])
           (auto simp: answered_def memberPlan_def)
    qed
  qed
qed

lemma planFor_Cons: "planFor ps md (i # idxs) = planAt ps md i @ planFor ps md idxs"
  by (simp add: planFor_def)

lemma planFor_Nil: "planFor ps md [] = []"
  by (simp add: planFor_def)

lemma planFor_member:
  assumes "c \<in> set (planFor ps md idxs)"
  shows "\<exists>i \<in> set idxs. i < length md \<and> c \<in> set (memberPlan (ps ! i) (md ! i))"
  using assms by (auto simp: planFor_def planAt_def split: if_splits)

lemma memberPlan_member:
  assumes "c \<in> set (memberPlan p d)"
  shows "(c = SetVolume p (Some (volume d)) \<and> volume d \<noteq> - 1) \<or>
         (c = SetMuted p (mutestate d = Some ''on'') \<and> mutestate d \<noteq> None)"
  using assms by (auto simp: memberPlan_def split: if_splits)

lemma restoreLoop_log:
  assumes "forEach idxs (restoreMember env ps md) s = (r, s')"
  shows "\<exists>pre fail. snd s' = snd s @ answered pre @ fail \<and>
           set pre \<subseteq> set (planFor ps md idxs) \<and>
           (case r of
              Inr u \<Rightarrow> fail = [] \<and> pre = planFor ps md idxs \<and> (\<forall>i \<in> set idxs. i < length md)
            | Inl e \<Rightarrow> (e = TypeError \<and> fail = [] \<and> (\<exists>i \<in> set idxs. length md \<le> i)) \<or>
                       (e = Rejected \<and> (\<exists>c \<in> set (planFor ps md idxs). fail = [(c, False)])))"
  using assms
proof (induction idxs arbitrary: s)
  case Nil
  then have "r = Inr ()" "s' = s"
    by (simp_all add: ret_def)
  then show ?case
    by (intro exI [of _ "[]"]) (simp add: answered_def planFor_Nil)
next
  case (Cons i idxs)
  obtain r1 s1 where step: "restoreMember env ps md i s = (r1, s1)"
    by (cases "restoreMember env ps md i s")
  from restoreMember_log [OF step] obtain pre1 fail1 where
    log1: "snd s1 = snd s @ answered pre1 @ fail1" and
    sub1: "set pre1 \<subseteq> set (planAt ps md i)" and
    res1: "(case r1 of
              Inr u \<Rightarrow> fail1 = [] \<and> pre1 = planAt ps md i \<and> i < length md
            | Inl e \<Rightarrow> (e = TypeError \<and> fail1 = [] \<and> length md \<le> i) \<or>
                       (e = Rejected \<and> (\<exists>c \<in> set (planAt ps md i). fail1 = [(c, False)])))"
    by blast
  show ?case
  proof (cases r1)
    case (Inl e)
    with Cons.prems step have "r = Inl e" "s' = s1"
      by (simp_all add: bnd_def)
    with log1 sub1 res1 Inl show ?thesis
      by (intro exI [of _ pre1] exI [of _ fail1]) (auto simp: planFor_Cons)
  next
    case (Inr u)
    with Cons.prems step have rest: "forEach idxs (restoreMember env ps md) s1 = (r, s')"
      by (simp add: bnd_def)
    from Cons.IH [OF rest] obtain pre2 fail2 where
      log2: "snd s' = snd s1 @ answered pre2 @ fail2" and
      sub2: "set pre2 \<subseteq> set (planFor ps md idxs)" and
      res2: "(case r of
              Inr u \<Rightarrow> fail2 = [] \<and> pre2 = planFor ps md idxs \<and> (\<forall>i \<in> set idxs. i < length md)
            | Inl e \<Rightarrow> (e = TypeError \<and> fail2 = [] \<and> (\<exists>i \<in> set idxs. length md \<le> i)) \<or>
                       (e = Rejected \<and> (\<exists>c \<in> set (planFor ps md idxs). fail2 = [(c, False)])))"
      by blast
    from res1 Inr have one: "fail1 = []" "pre1 = planAt ps md i" "i < length md"
      by simp_all
    from log1 log2 one have log: "snd s' = snd s @ answered (pre1 @ pre2) @ fail2"
      by (simp add: answered_def)
    from sub2 one have sub: "set (pre1 @ pre2) \<subseteq> set (planFor ps md (i # idxs))"
      by (auto simp: planFor_Cons)
    from res2 one have res: "(case r of
              Inr u \<Rightarrow> fail2 = [] \<and> pre1 @ pre2 = planFor ps md (i # idxs) \<and>
                       (\<forall>j \<in> set (i # idxs). j < length md)
            | Inl e \<Rightarrow> (e = TypeError \<and> fail2 = [] \<and> (\<exists>j \<in> set (i # idxs). length md \<le> j)) \<or>
                       (e = Rejected \<and>
                        (\<exists>c \<in> set (planFor ps md (i # idxs)). fail2 = [(c, False)])))"
      by (cases r) (auto simp: planFor_Cons)
    from log sub res show ?thesis
      by blast
  qed
qed

lemma restoreGroupSnapshot_log:
  assumes run: "restoreGroupSnapshot env (coordinator # others) snapshot s = (r, s')"
  shows "(r = Inl Rejected \<and>
          snd s' = snd s @ [(SetAVTransportURI coordinator (snapCurrentURI snapshot)
                               (CurrentURIMetadata snapshot) True, False)]) \<or>
         (\<exists>okT okS pre fail.
            snd s' = snd s @
              [(SetAVTransportURI coordinator (snapCurrentURI snapshot)
                  (CurrentURIMetadata snapshot) True, True)] @
              (if trackDue (snapTrack snapshot) (snapNrTracks snapshot)
               then [(SelectTrack coordinator (snapTrack snapshot), okT)] else []) @
              (if seekDue (snapRelTime snapshot) (snapTrackDuration snapshot)
               then [(Seek coordinator (the (snapRelTime snapshot)), okS)] else []) @
              answered pre @ fail \<and>
            set pre \<subseteq> set (planFor (coordinator # others) (memberData snapshot)
                              [0..<length (coordinator # others)]) \<and>
            (case r of
               Inr v \<Rightarrow> v \<and> fail = [] \<and>
                        pre = planFor (coordinator # others) (memberData snapshot)
                                [0..<length (coordinator # others)] \<and>
                        length (coordinator # others) \<le> length (memberData snapshot)
             | Inl e \<Rightarrow> (e = TypeError \<and> fail = [] \<and>
                         length (memberData snapshot) < length (coordinator # others)) \<or>
                        (e = Rejected \<and>
                         (\<exists>c \<in> set (planFor (coordinator # others) (memberData snapshot)
                                       [0..<length (coordinator # others)]).
                            fail = [(c, False)]))))"
proof -
  let ?ps = "coordinator # others"
  let ?u = "SetAVTransportURI coordinator (snapCurrentURI snapshot) (CurrentURIMetadata snapshot) True"
  obtain r0 s0 where p0: "perform env ?u s = (r0, s0)"
    by (cases "perform env ?u s")
  from perform_log [OF p0] show ?thesis
  proof
    assume bad: "r0 = Inl Rejected \<and> snd s0 = snd s @ [(?u, False)]"
    with run p0 have "r = Inl Rejected" "s' = s0"
      by (simp_all add: restoreGroupSnapshot_def bnd_def)
    with bad show ?thesis
      by simp
  next
    assume ok: "r0 = Inr () \<and> snd s0 = snd s @ [(?u, True)]"
    obtain r1 s1 where p1: "selectTrackBestEffort env coordinator (snapTrack snapshot)
                              (snapNrTracks snapshot) s0 = (r1, s1)"
      by (cases "selectTrackBestEffort env coordinator (snapTrack snapshot)
                   (snapNrTracks snapshot) s0")
    from selectTrackBestEffort_log [OF p1] obtain okT where
      r1: "r1 = Inr ()" and
      l1: "snd s1 = snd s0 @ (if trackDue (snapTrack snapshot) (snapNrTracks snapshot)
                              then [(SelectTrack coordinator (snapTrack snapshot), okT)] else [])"
      by (auto simp: trackDue_def)
    obtain r2 s2 where p2: "seekBestEffort env coordinator (snapRelTime snapshot)
                              (snapTrackDuration snapshot) s1 = (r2, s2)"
      by (cases "seekBestEffort env coordinator (snapRelTime snapshot)
                   (snapTrackDuration snapshot) s1")
    from seekBestEffort_log [OF p2] obtain okS where
      r2: "r2 = Inr ()" and
      l2: "snd s2 = snd s1 @ (if seekDue (snapRelTime snapshot) (snapTrackDuration snapshot)
                              then [(Seek coordinator (the (snapRelTime snapshot)), okS)] else [])"
      by auto
    obtain r3 s3 where p3: "forEach [0..<length ?ps] (restoreMember env ?ps (memberData snapshot)) s2
                              = (r3, s3)"
      by (cases "forEach [0..<length ?ps] (restoreMember env ?ps (memberData snapshot)) s2")
    from restoreLoop_log [OF p3] obtain pre fail where
      l3: "snd s3 = snd s2 @ answered pre @ fail" and
      sub: "set pre \<subseteq> set (planFor ?ps (memberData snapshot) [0..<length ?ps])" and
      res: "(case r3 of
              Inr u \<Rightarrow> fail = [] \<and> pre = planFor ?ps (memberData snapshot) [0..<length ?ps] \<and>
                       (\<forall>i \<in> set [0..<length ?ps]. i < length (memberData snapshot))
            | Inl e \<Rightarrow> (e = TypeError \<and> fail = [] \<and>
                        (\<exists>i \<in> set [0..<length ?ps]. length (memberData snapshot) \<le> i)) \<or>
                       (e = Rejected \<and>
                        (\<exists>c \<in> set (planFor ?ps (memberData snapshot) [0..<length ?ps]).
                           fail = [(c, False)])))"
      by blast
    from run p0 ok p1 r1 p2 r2 p3
    have fin: "(case r3 of Inl e \<Rightarrow> (Inl e, s3) | Inr u \<Rightarrow> (Inr True, s3)) = (r, s')"
      by (simp add: restoreGroupSnapshot_def bnd_def ret_def split: sum.splits)
    from ok l1 l2 l3
    have log: "snd s3 = snd s @ [(?u, True)] @
              (if trackDue (snapTrack snapshot) (snapNrTracks snapshot)
               then [(SelectTrack coordinator (snapTrack snapshot), okT)] else []) @
              (if seekDue (snapRelTime snapshot) (snapTrackDuration snapshot)
               then [(Seek coordinator (the (snapRelTime snapshot)), okS)] else []) @
              answered pre @ fail"
      by simp
    have final: "(case r of
               Inr v \<Rightarrow> v \<and> fail = [] \<and>
                        pre = planFor ?ps (memberData snapshot) [0..<length ?ps] \<and>
                        length ?ps \<le> length (memberData snapshot)
             | Inl e \<Rightarrow> (e = TypeError \<and> fail = [] \<and>
                         length (memberData snapshot) < length ?ps) \<or>
                        (e = Rejected \<and>
                         (\<exists>c \<in> set (planFor ?ps (memberData snapshot) [0..<length ?ps]).
                            fail = [(c, False)])))"
    proof (cases r3)
      case (Inl e)
      with fin have "r = Inl e" by simp
      with res Inl show ?thesis
        by auto
    next
      case (Inr u)
      with fin have "r = Inr True" by simp
      moreover from res Inr have "\<forall>i < length ?ps. i < length (memberData snapshot)"
        by simp
      then have "length ?ps \<le> length (memberData snapshot)"
        by (metis not_less order_refl)
      ultimately show ?thesis
        using res Inr by simp
    qed
    from fin have "s' = s3"
      by (cases r3) simp_all
    with log sub final show ?thesis
      by blast
  qed
qed

lemma issued_append: "snd s' = snd s @ log \<Longrightarrow> issued s s' = log"
  by (simp add: issued_def)

lemma plan_not_bestEffort:
  assumes "c \<in> set (planFor ps md idxs)"
  shows "\<not> bestEffort c"
proof -
  from planFor_member [OF assms] obtain i where "c \<in> set (memberPlan (ps ! i) (md ! i))"
    by blast
  from memberPlan_member [OF this] show ?thesis
    by (auto simp: bestEffort_def)
qed

lemma plan_volume:
  assumes "SetVolume p v \<in> set (planFor ps md [0..<n])"
  shows "\<exists>i < n. i < length md \<and> p = ps ! i \<and> v = Some (volume (md ! i)) \<and>
           volume (md ! i) \<noteq> - 1"
proof -
  from planFor_member [OF assms] obtain i where
    i: "i < n" "i < length md" "SetVolume p v \<in> set (memberPlan (ps ! i) (md ! i))"
    by auto
  from memberPlan_member [OF i(3)] i(1,2) show ?thesis
    by auto
qed

lemma plan_muted:
  assumes "SetMuted p b \<in> set (planFor ps md [0..<n])"
  shows "\<exists>i < n. i < length md \<and> p = ps ! i \<and> b = (mutestate (md ! i) = Some ''on'') \<and>
           mutestate (md ! i) \<noteq> None"
proof -
  from planFor_member [OF assms] obtain i where
    i: "i < n" "i < length md" "SetMuted p b \<in> set (memberPlan (ps ! i) (md ! i))"
    by auto
  from memberPlan_member [OF i(3)] i(1,2) show ?thesis
    by auto
qed

lemma plan_complete:
  assumes "i < n" "i < length md" "c \<in> set (memberPlan (ps ! i) (md ! i))"
  shows "c \<in> set (planFor ps md [0..<n])"
  using assms by (auto simp: planFor_def planAt_def)

text \<open>
  A snapshot that \<open>createGroupSnapshot\<close> returns covers the members it was taken of.
\<close>

lemma captureMembers_length:
  assumes "captureMembers env snapVolumes snapMutestates ps acc s = (Inr captured, s')"
  shows "length captured = length acc + length ps"
  using assms
proof (induction ps arbitrary: acc s)
  case Nil
  then show ?case
    by simp
next
  case (Cons p ps)
  from Cons.prems obtain v m s2 where
    "captureMembers env snapVolumes snapMutestates ps
       (acc @ [\<lparr>urlHostname = playerHost p, urlPort = playerPort p, baseUrl = playerBaseUrl p,
                volume = v, mutestate = m\<rparr>]) s2 = (Inr captured, s')"
    by (auto simp: bnd_Inr)
  from Cons.IH [OF this] show ?case
    by simp
qed

lemma createGroupSnapshot_covers:
  assumes "createGroupSnapshot env membersAsPlayersPlus snapVolumes snapMutestates s
             = (Inr snapshot, s')"
  shows "membersAsPlayersPlus \<noteq> [] \<and>
         length (memberData snapshot) = length membersAsPlayersPlus"
proof -
  from assms obtain captured s1 where
    cap: "captureMembers env snapVolumes snapMutestates membersAsPlayersPlus [] s = (Inr captured, s1)"
    and rest: "(case membersAsPlayersPlus of
            [] \<Rightarrow> throw TypeError
          | coordinator # others \<Rightarrow>
              bnd (getCurrentState env coordinator)
                (\<lambda>st.
                   bnd (getMediaInfo env coordinator)
                     (\<lambda>mediaData.
                        bnd (getPositionInfo env coordinator)
                          (\<lambda>positionData.
                             ret \<lparr>memberData = captured,
                                  playbackstate = st,
                                  snapWasPlaying = isPlaying st,
                                  snapCurrentURI = CurrentURI mediaData,
                                  CurrentURIMetadata = CurrentURIMetaData mediaData,
                                  snapNrTracks = NrTracks mediaData,
                                  snapTrack = Track positionData,
                                  snapRelTime = RelTime positionData,
                                  snapTrackDuration = TrackDuration positionData\<rparr>)))) s1
               = (Inr snapshot, s')"
    by (auto simp: createGroupSnapshot_def bnd_Inr)
  from rest have ne: "membersAsPlayersPlus \<noteq> []" and md: "memberData snapshot = captured"
    by (auto simp: bnd_Inr split: list.splits)
  from captureMembers_length [OF cap] ne md show ?thesis
    by simp
qed

text \<open>
  C8 (as amended). In \<open>restoreGroupSnapshot\<close>, for every snapshot and member list: a
  failure of the track selection or of the seek is swallowed. When no other call failed,
  the restore returns \<open>true\<close> if the member list is not empty and the snapshot's
  \<open>memberData\<close> has an entry for each member, and it ends in the \<open>TypeError\<close> of
  reading the missing coordinator or the missing entry otherwise, never in the swallowed
  rejection. A failed volume or mute call makes the restore fail with that rejection; a
  volume call is issued only for a member whose captured volume is not \<open>-1\<close>, with
  that volume, and a mute call only for a member whose captured mute state is not
  \<open>null\<close>; and a restore that returns \<open>true\<close> has issued all of these calls.
\<close>

theorem restoreGroupSnapshot_failures:
  assumes run: "restoreGroupSnapshot env membersAsPlayersPlus snapshot s = (r, s')"
  shows "(membersAsPlayersPlus \<noteq> [] \<and>
          length membersAsPlayersPlus \<le> length (memberData snapshot) \<and>
          (\<forall>entry \<in> set (issued s s'). snd entry \<or> bestEffort (fst entry))
          \<longrightarrow> r = Inr True) \<and>
         ((membersAsPlayersPlus = [] \<or>
           length (memberData snapshot) < length membersAsPlayersPlus) \<and>
          (\<forall>entry \<in> set (issued s s'). snd entry \<or> bestEffort (fst entry))
          \<longrightarrow> r = Inl TypeError) \<and>
         (\<forall>p v. (SetVolume p v, False) \<in> set (issued s s') \<longrightarrow> r = Inl Rejected) \<and>
         (\<forall>p b. (SetMuted p b, False) \<in> set (issued s s') \<longrightarrow> r = Inl Rejected) \<and>
         (\<forall>p v ok. (SetVolume p v, ok) \<in> set (issued s s') \<longrightarrow>
            (\<exists>i < length membersAsPlayersPlus. i < length (memberData snapshot) \<and>
               p = membersAsPlayersPlus ! i \<and>
               v = Some (volume (memberData snapshot ! i)) \<and>
               volume (memberData snapshot ! i) \<noteq> - 1)) \<and>
         (\<forall>p b ok. (SetMuted p b, ok) \<in> set (issued s s') \<longrightarrow>
            (\<exists>i < length membersAsPlayersPlus. i < length (memberData snapshot) \<and>
               p = membersAsPlayersPlus ! i \<and>
               b = (mutestate (memberData snapshot ! i) = Some ''on'') \<and>
               mutestate (memberData snapshot ! i) \<noteq> None)) \<and>
         (r = Inr True \<longrightarrow>
            (\<forall>i < length membersAsPlayersPlus.
               (volume (memberData snapshot ! i) \<noteq> - 1 \<longrightarrow>
                  (SetVolume (membersAsPlayersPlus ! i)
                     (Some (volume (memberData snapshot ! i))), True) \<in> set (issued s s')) \<and>
               (mutestate (memberData snapshot ! i) \<noteq> None \<longrightarrow>
                  (SetMuted (membersAsPlayersPlus ! i)
                     (mutestate (memberData snapshot ! i) = Some ''on''), True)
                    \<in> set (issued s s'))))"
proof (cases membersAsPlayersPlus)
  case Nil
  with run have "r = Inl TypeError" "s' = s"
    by (simp_all add: restoreGroupSnapshot_def throw_def)
  with Nil show ?thesis
    by (simp add: issued_def)
next
  case (Cons coordinator others)
  let ?ps = "coordinator # others"
  let ?md = "memberData snapshot"
  let ?u = "SetAVTransportURI coordinator (snapCurrentURI snapshot) (CurrentURIMetadata snapshot) True"
  let ?plan = "planFor ?ps ?md [0..<length ?ps]"
  from run Cons have run': "restoreGroupSnapshot env ?ps snapshot s = (r, s')"
    by simp
  from restoreGroupSnapshot_log [OF run'] show ?thesis
  proof
    assume bad: "r = Inl Rejected \<and> snd s' = snd s @ [(?u, False)]"
    then have "issued s s' = [(?u, False)]"
      by (simp add: issued_append)
    with bad Cons show ?thesis
      by (simp add: bestEffort_def)
  next
    assume "\<exists>okT okS pre fail.
            snd s' = snd s @ [(?u, True)] @
              (if trackDue (snapTrack snapshot) (snapNrTracks snapshot)
               then [(SelectTrack coordinator (snapTrack snapshot), okT)] else []) @
              (if seekDue (snapRelTime snapshot) (snapTrackDuration snapshot)
               then [(Seek coordinator (the (snapRelTime snapshot)), okS)] else []) @
              answered pre @ fail \<and>
            set pre \<subseteq> set ?plan \<and>
            (case r of
               Inr v \<Rightarrow> v \<and> fail = [] \<and> pre = ?plan \<and> length ?ps \<le> length ?md
             | Inl e \<Rightarrow> (e = TypeError \<and> fail = [] \<and> length ?md < length ?ps) \<or>
                        (e = Rejected \<and> (\<exists>c \<in> set ?plan. fail = [(c, False)])))"
    then obtain okT okS pre fail where
      log: "snd s' = snd s @ [(?u, True)] @
              (if trackDue (snapTrack snapshot) (snapNrTracks snapshot)
               then [(SelectTrack coordinator (snapTrack snapshot), okT)] else []) @
              (if seekDue (snapRelTime snapshot) (snapTrackDuration snapshot)
               then [(Seek coordinator (the (snapRelTime snapshot)), okS)] else []) @
              answered pre @ fail" and
      sub: "set pre \<subseteq> set ?plan" and
      res: "(case r of
               Inr v \<Rightarrow> v \<and> fail = [] \<and> pre = ?plan \<and> length ?ps \<le> length ?md
             | Inl e \<Rightarrow> (e = TypeError \<and> fail = [] \<and> length ?md < length ?ps) \<or>
                        (e = Rejected \<and> (\<exists>c \<in> set ?plan. fail = [(c, False)])))"
      by blast
    note iss = issued_append [OF log]
    have members: "set (issued s s') \<supseteq> set (answered pre) \<union> set fail"
      by (auto simp: iss)
    have volume_entry: "\<And>p v ok. (SetVolume p v, ok) \<in> set (issued s s') \<Longrightarrow>
        (SetVolume p v, ok) \<in> set (answered pre) \<union> set fail"
      by (auto simp: iss split: if_splits)
    have muted_entry: "\<And>p b ok. (SetMuted p b, ok) \<in> set (issued s s') \<Longrightarrow>
        (SetMuted p b, ok) \<in> set (answered pre) \<union> set fail"
      by (auto simp: iss split: if_splits)
    have fail_plan: "\<And>c ok. (c, ok) \<in> set fail \<Longrightarrow> c \<in> set ?plan \<and> \<not> ok \<and> r = Inl Rejected"
      using res by (cases r) auto
    have pre_plan: "\<And>c ok. (c, ok) \<in> set (answered pre) \<Longrightarrow> c \<in> set ?plan \<and> ok"
      using sub by (auto simp: answered_def)
    have swallow: "length ?ps \<le> length ?md \<and>
          (\<forall>entry \<in> set (issued s s'). snd entry \<or> bestEffort (fst entry)) \<longrightarrow> r = Inr True"
    proof
      assume h: "length ?ps \<le> length ?md \<and>
          (\<forall>entry \<in> set (issued s s'). snd entry \<or> bestEffort (fst entry))"
      show "r = Inr True"
      proof (cases r)
        case (Inr v)
        with res show ?thesis by simp
      next
        case (Inl e)
        with res h have "\<exists>c \<in> set ?plan. fail = [(c, False)]"
          by auto
        then obtain c where c: "c \<in> set ?plan" "fail = [(c, False)]"
          by blast
        with members have "(c, False) \<in> set (issued s s')"
          by auto
        with h have "bestEffort c"
          by fastforce
        with plan_not_bestEffort [OF c(1)] show ?thesis
          by simp
      qed
    qed
    have uncovered: "length ?md < length ?ps \<and>
          (\<forall>entry \<in> set (issued s s'). snd entry \<or> bestEffort (fst entry)) \<longrightarrow> r = Inl TypeError"
    proof
      assume h: "length ?md < length ?ps \<and>
          (\<forall>entry \<in> set (issued s s'). snd entry \<or> bestEffort (fst entry))"
      show "r = Inl TypeError"
      proof (cases r)
        case (Inr v)
        with res h show ?thesis by simp
      next
        case (Inl e)
        show ?thesis
        proof (cases "e = TypeError")
          case True
          with Inl show ?thesis by simp
        next
          case False
          with res Inl have "\<exists>c \<in> set ?plan. fail = [(c, False)]"
            by auto
          then obtain c where c: "c \<in> set ?plan" "fail = [(c, False)]"
            by blast
          with members have "(c, False) \<in> set (issued s s')"
            by auto
          with h have "bestEffort c"
            by fastforce
          with plan_not_bestEffort [OF c(1)] show ?thesis
            by simp
        qed
      qed
    qed
    have prop_v: "\<forall>p v. (SetVolume p v, False) \<in> set (issued s s') \<longrightarrow> r = Inl Rejected"
      using volume_entry fail_plan pre_plan by blast
    have prop_m: "\<forall>p b. (SetMuted p b, False) \<in> set (issued s s') \<longrightarrow> r = Inl Rejected"
      using muted_entry fail_plan pre_plan by blast
    have only_v: "\<forall>p v ok. (SetVolume p v, ok) \<in> set (issued s s') \<longrightarrow>
            (\<exists>i < length ?ps. i < length ?md \<and> p = ?ps ! i \<and>
               v = Some (volume (?md ! i)) \<and> volume (?md ! i) \<noteq> - 1)"
    proof (intro allI impI)
      fix p v ok
      assume "(SetVolume p v, ok) \<in> set (issued s s')"
      from volume_entry [OF this] fail_plan pre_plan have "SetVolume p v \<in> set ?plan"
        by blast
      then show "\<exists>i < length ?ps. i < length ?md \<and> p = ?ps ! i \<and>
               v = Some (volume (?md ! i)) \<and> volume (?md ! i) \<noteq> - 1"
        by (rule plan_volume)
    qed
    have only_m: "\<forall>p b ok. (SetMuted p b, ok) \<in> set (issued s s') \<longrightarrow>
            (\<exists>i < length ?ps. i < length ?md \<and> p = ?ps ! i \<and>
               b = (mutestate (?md ! i) = Some ''on'') \<and> mutestate (?md ! i) \<noteq> None)"
    proof (intro allI impI)
      fix p b ok
      assume "(SetMuted p b, ok) \<in> set (issued s s')"
      from muted_entry [OF this] fail_plan pre_plan have "SetMuted p b \<in> set ?plan"
        by blast
      then show "\<exists>i < length ?ps. i < length ?md \<and> p = ?ps ! i \<and>
               b = (mutestate (?md ! i) = Some ''on'') \<and> mutestate (?md ! i) \<noteq> None"
        by (rule plan_muted)
    qed
    have all_done: "r = Inr True \<longrightarrow>
            (\<forall>i < length ?ps.
               (volume (?md ! i) \<noteq> - 1 \<longrightarrow>
                  (SetVolume (?ps ! i) (Some (volume (?md ! i))), True) \<in> set (issued s s')) \<and>
               (mutestate (?md ! i) \<noteq> None \<longrightarrow>
                  (SetMuted (?ps ! i) (mutestate (?md ! i) = Some ''on''), True)
                    \<in> set (issued s s')))"
    proof (intro impI allI conjI)
      fix i
      assume ok: "r = Inr True" and i: "i < length ?ps"
      from ok res have pre: "pre = ?plan" and len: "length ?ps \<le> length ?md"
        by simp_all
      from i len have i': "i < length ?md"
        by simp
      {
        assume "volume (?md ! i) \<noteq> - 1"
        then have "SetVolume (?ps ! i) (Some (volume (?md ! i))) \<in> set (memberPlan (?ps ! i) (?md ! i))"
          by (simp add: memberPlan_def)
        from plan_complete [OF i i' this] pre members
        show "(SetVolume (?ps ! i) (Some (volume (?md ! i))), True) \<in> set (issued s s')"
          by (auto simp: answered_def)
      }
      {
        assume "mutestate (?md ! i) \<noteq> None"
        then have "SetMuted (?ps ! i) (mutestate (?md ! i) = Some ''on'')
                     \<in> set (memberPlan (?ps ! i) (?md ! i))"
          by (simp add: memberPlan_def)
        from plan_complete [OF i i' this] pre members
        show "(SetMuted (?ps ! i) (mutestate (?md ! i) = Some ''on''), True) \<in> set (issued s s')"
          by (auto simp: answered_def)
      }
    qed
    from swallow uncovered prop_v prop_m only_v only_m all_done show ?thesis
      unfolding Cons by blast
  qed
qed


lemma queueRestore_run:
  "restoreGroupSnapshot pickyPlayer [livingRoom, kitchen] queueSnapshot ((), [])
     = (Inr True, ((), queueRestoreLog))"
  by (simp add: restoreGroupSnapshot_def queueSnapshot_def queueRestoreLog_def
      selectTrackBestEffort_def seekBestEffort_def restoreMember_def whenever_def
      catchIgnore_def perform_def bnd_def request_def ret_def throw_def upt_rec)

theorem restoreGroupSnapshot_failures_witness:
  "restoreGroupSnapshot pickyPlayer [livingRoom, kitchen] queueSnapshot ((), [])
     = (Inr True, ((), queueRestoreLog)) \<and>
   (SelectTrack livingRoom 3, False) \<in> set queueRestoreLog \<and>
   (Seek livingRoom ''0:01:05'', False) \<in> set queueRestoreLog \<and>
   (SetVolume livingRoom (Some 20), True) \<in> set (issued ((), []) ((), queueRestoreLog)) \<and>
   (\<exists>i < length [livingRoom, kitchen]. i < length (memberData queueSnapshot) \<and>
      livingRoom = [livingRoom, kitchen] ! i \<and>
      Some 20 = Some (volume (memberData queueSnapshot ! i)) \<and>
      volume (memberData queueSnapshot ! i) \<noteq> - 1)"
proof -
  have entry: "(SetVolume livingRoom (Some 20), True) \<in> set (issued ((), []) ((), queueRestoreLog))"
    by (simp add: issued_def queueRestoreLog_def)
  note parts = restoreGroupSnapshot_failures [OF queueRestore_run]
  note only_volume = conjunct1 [OF conjunct2 [OF conjunct2 [OF conjunct2 [OF conjunct2 [OF parts]]]]]
  from only_volume entry
  have "\<exists>i < length [livingRoom, kitchen]. i < length (memberData queueSnapshot) \<and>
      livingRoom = [livingRoom, kitchen] ! i \<and>
      Some 20 = Some (volume (memberData queueSnapshot ! i)) \<and>
      volume (memberData queueSnapshot ! i) \<noteq> - 1"
    by blast
  with queueRestore_run entry show ?thesis
    by (simp add: queueRestoreLog_def)
qed


text \<open>
  C8 as stated fails for a snapshot with fewer entries than the member list: the rejected
  track selection and seek are swallowed, the first member's volume and mute are
  reapplied, and the restore then throws at the second member instead of returning
  \<open>true\<close>.
\<close>

theorem restoreGroupSnapshot_short_snapshot:
  "length (memberData shortSnapshot) < length [livingRoom, kitchen] \<and>
   restoreGroupSnapshot pickyPlayer [livingRoom, kitchen] shortSnapshot ((), [])
     = (Inl TypeError,
        ((), [(SetAVTransportURI livingRoom ''x-rincon-queue:RINCON_A#0'' [] True, True),
              (SelectTrack livingRoom 3, False),
              (Seek livingRoom ''0:01:05'', False),
              (SetVolume livingRoom (Some 20), True),
              (SetMuted livingRoom False, True)]))"
  by (simp add: restoreGroupSnapshot_def shortSnapshot_def
      selectTrackBestEffort_def seekBestEffort_def restoreMember_def whenever_def
      catchIgnore_def perform_def bnd_def request_def ret_def throw_def upt_rec)

subsection \<open>playGroupNotification\<close>

lemma runsWithin_ret: "runsWithin P (ret x)"
  by (simp add: runsWithin_def ret_def)

lemma runsWithin_perform:
  assumes "P c" "\<not> bestEffort c"
  shows "runsWithin P (perform env c)"
  unfolding runsWithin_def
proof (intro allI impI)
  fix s r s'
  assume "perform env c s = (r, s')"
  from perform_log [OF this] assms
  show "\<exists>log. snd s' = snd s @ log \<and> (\<forall>e \<in> set log. P (fst e)) \<and>
           (case r of
              Inr x \<Rightarrow> (\<forall>e \<in> set log. snd e \<or> bestEffort (fst e))
            | Inl err \<Rightarrow> err = Rejected \<and> (\<exists>c. (c, False) \<in> set log \<and> \<not> bestEffort c))"
    by auto
qed

lemma runsWithin_catch:
  assumes "P c" "bestEffort c"
  shows "runsWithin P (catchIgnore (perform env c))"
  unfolding runsWithin_def
proof (intro allI impI)
  fix s r s'
  assume "catchIgnore (perform env c) s = (r, s')"
  from catchIgnore_perform_log [OF this] assms
  show "\<exists>log. snd s' = snd s @ log \<and> (\<forall>e \<in> set log. P (fst e)) \<and>
           (case r of
              Inr x \<Rightarrow> (\<forall>e \<in> set log. snd e \<or> bestEffort (fst e))
            | Inl err \<Rightarrow> err = Rejected \<and> (\<exists>c. (c, False) \<in> set log \<and> \<not> bestEffort c))"
    by auto
qed

lemma runsWithin_whenever:
  assumes "b \<Longrightarrow> runsWithin P m"
  shows "runsWithin P (whenever b m)"
  using assms by (cases b) (simp_all add: whenever_def runsWithin_ret)

lemma runsWithin_bnd:
  assumes m: "runsWithin P m" and f: "\<And>x. runsWithin P (f x)"
  shows "runsWithin P (bnd m f)"
  unfolding runsWithin_def
proof (intro allI impI)
  fix s r s'
  assume run: "bnd m f s = (r, s')"
  obtain r1 s1 where first: "m s = (r1, s1)"
    by (cases "m s")
  from m first obtain log1 where
    l1: "snd s1 = snd s @ log1" and p1: "\<forall>e \<in> set log1. P (fst e)" and
    c1: "(case r1 of
              Inr x \<Rightarrow> (\<forall>e \<in> set log1. snd e \<or> bestEffort (fst e))
            | Inl err \<Rightarrow> err = Rejected \<and> (\<exists>c. (c, False) \<in> set log1 \<and> \<not> bestEffort c))"
    unfolding runsWithin_def by blast
  show "\<exists>log. snd s' = snd s @ log \<and> (\<forall>e \<in> set log. P (fst e)) \<and>
           (case r of
              Inr x \<Rightarrow> (\<forall>e \<in> set log. snd e \<or> bestEffort (fst e))
            | Inl err \<Rightarrow> err = Rejected \<and> (\<exists>c. (c, False) \<in> set log \<and> \<not> bestEffort c))"
  proof (cases r1)
    case (Inl e)
    with run first have "r = Inl e" "s' = s1"
      by (simp_all add: bnd_def)
    with l1 p1 c1 Inl show ?thesis
      by (intro exI [of _ log1]) simp
  next
    case (Inr x)
    with run first have second: "f x s1 = (r, s')"
      by (simp add: bnd_def)
    from f [of x] second obtain log2 where
      l2: "snd s' = snd s1 @ log2" and p2: "\<forall>e \<in> set log2. P (fst e)" and
      c2: "(case r of
              Inr x \<Rightarrow> (\<forall>e \<in> set log2. snd e \<or> bestEffort (fst e))
            | Inl err \<Rightarrow> err = Rejected \<and> (\<exists>c. (c, False) \<in> set log2 \<and> \<not> bestEffort c))"
      unfolding runsWithin_def by blast
    from l1 l2 have "snd s' = snd s @ (log1 @ log2)"
      by simp
    moreover from p1 p2 have "\<forall>e \<in> set (log1 @ log2). P (fst e)"
      by auto
    moreover from c1 c2 Inr have "(case r of
              Inr x \<Rightarrow> (\<forall>e \<in> set (log1 @ log2). snd e \<or> bestEffort (fst e))
            | Inl err \<Rightarrow> err = Rejected \<and>
                (\<exists>c. (c, False) \<in> set (log1 @ log2) \<and> \<not> bestEffort c))"
      by (cases r) auto
    ultimately show ?thesis
      by blast
  qed
qed

lemma runsWithin_forEach:
  assumes "\<And>x. runsWithin P (body x)"
  shows "runsWithin P (forEach xs body)"
  by (induction xs) (simp_all add: runsWithin_ret runsWithin_bnd assms)

lemma runsWithin_appends:
  assumes "runsWithin P m" "m s = (r, s')"
  shows "\<exists>log. snd s' = snd s @ log"
  using assms unfolding runsWithin_def by blast

lemma attempts_first:
  assumes m: "attempts c m" and f: "\<And>x. runsWithin P (f x)" and w: "runsWithin Q m"
  shows "attempts c (bnd m f)"
  unfolding attempts_def
proof (intro allI impI)
  fix s r s' y
  assume run: "bnd m f s = (r, s')" and ok: "r = Inr y"
  obtain r1 s1 where first: "m s = (r1, s1)"
    by (cases "m s")
  with run ok obtain x where x: "r1 = Inr x" "f x s1 = (r, s')"
    by (cases r1) (auto simp: bnd_def)
  from m first x(1) obtain ok1 where "(c, ok1) \<in> set (issued s s1)"
    unfolding attempts_def by blast
  moreover from runsWithin_appends [OF w first] obtain log1 where "snd s1 = snd s @ log1"
    by blast
  moreover from runsWithin_appends [OF f x(2)] obtain log2 where "snd s' = snd s1 @ log2"
    by blast
  ultimately have "(c, ok1) \<in> set (issued s s')"
    by (simp add: issued_def)
  then show "\<exists>ok. (c, ok) \<in> set (issued s s')"
    by blast
qed

lemma attempts_later:
  assumes f: "\<And>x. attempts c (f x)" and w: "runsWithin Q m" and g: "\<And>x. runsWithin P (f x)"
  shows "attempts c (bnd m f)"
  unfolding attempts_def
proof (intro allI impI)
  fix s r s' y
  assume run: "bnd m f s = (r, s')" and ok: "r = Inr y"
  obtain r1 s1 where first: "m s = (r1, s1)"
    by (cases "m s")
  with run ok obtain x where x: "r1 = Inr x" "f x s1 = (r, s')"
    by (cases r1) (auto simp: bnd_def)
  from f [of x] x(2) ok obtain ok2 where "(c, ok2) \<in> set (issued s1 s')"
    unfolding attempts_def by blast
  moreover from runsWithin_appends [OF w first] obtain log1 where "snd s1 = snd s @ log1"
    by blast
  moreover from runsWithin_appends [OF g x(2)] obtain log2 where "snd s' = snd s1 @ log2"
    by blast
  ultimately have "(c, ok2) \<in> set (issued s s')"
    by (simp add: issued_def)
  then show "\<exists>ok. (c, ok) \<in> set (issued s s')"
    by blast
qed

lemma attempts_catch: "attempts c (catchIgnore (perform env c))"
  unfolding attempts_def
proof (intro allI impI)
  fix s r s' x
  assume "catchIgnore (perform env c) s = (r, s')"
  from catchIgnore_perform_log [OF this] show "\<exists>ok. (c, ok) \<in> set (issued s s')"
    by (auto simp: issued_def)
qed

lemma runsWithin_selectTrack:
  assumes "trackDue t n \<Longrightarrow> P (SelectTrack p t)"
  shows "runsWithin P (selectTrackBestEffort env p t n)"
  unfolding selectTrackBestEffort_def
  by (rule runsWithin_whenever, rule runsWithin_catch)
     (auto simp: assms trackDue_def bestEffort_def)

lemma runsWithin_seek:
  assumes "seekDue rel dur \<Longrightarrow> P (Seek p (the rel))"
  shows "runsWithin P (seekBestEffort env p rel dur)"
proof (cases rel)
  case None
  then show ?thesis
    by (simp add: seekBestEffort_def runsWithin_ret)
next
  case (Some t)
  have "runsWithin P (whenever (t \<noteq> [] \<and> dur \<noteq> Some ''0:00:00'')
                        (catchIgnore (perform env (Seek p t))))"
  proof (rule runsWithin_whenever, rule runsWithin_catch)
    assume "t \<noteq> [] \<and> dur \<noteq> Some ''0:00:00''"
    with assms Some show "P (Seek p t)"
      by (simp add: seekDue_def)
  next
    show "bestEffort (Seek p t)"
      by (simp add: bestEffort_def)
  qed
  with Some show ?thesis
    by (simp add: seekBestEffort_def)
qed

lemma attempts_selectTrack:
  assumes "trackDue t n"
  shows "attempts (SelectTrack p t) (selectTrackBestEffort env p t n)"
  using assms by (simp add: selectTrackBestEffort_def trackDue_def whenever_def attempts_catch)

lemma attempts_seek:
  assumes "seekDue rel dur"
  shows "attempts (Seek p (the rel)) (seekBestEffort env p rel dur)"
  using assms
  by (auto simp: seekBestEffort_def seekDue_def whenever_def attempts_catch split: option.splits)

lemma restore_within:
  "runsWithin (restoreCalls coordinator snapshot)
     (restoreAfterNotification env (coordinator # others) opts snapshot)"
  unfolding restoreAfterNotification_def list.case
  by (intro runsWithin_bnd runsWithin_whenever runsWithin_perform runsWithin_forEach
        runsWithin_selectTrack runsWithin_seek)
     (auto simp: restoreCalls_def bestEffort_def)

lemma anything_within: "runsWithin P m \<Longrightarrow> runsWithin (\<lambda>c. True) m"
  unfolding runsWithin_def by blast

lemma restore_attempts_track:
  assumes "trackDue (Track (positionInfo snapshot)) (NrTracks (mediaInfo snapshot))"
  shows "attempts (SelectTrack coordinator (Track (positionInfo snapshot)))
           (restoreAfterNotification env (coordinator # others) opts snapshot)"
  unfolding restoreAfterNotification_def list.case
  apply (rule attempts_later [where Q = "\<lambda>c. True" and P = "\<lambda>c. True"])
    apply (rule attempts_later [where Q = "\<lambda>c. True" and P = "\<lambda>c. True"])
      apply (rule attempts_later [where Q = "\<lambda>c. True" and P = "\<lambda>c. True"])
        apply (rule attempts_first [where Q = "\<lambda>c. True" and P = "\<lambda>c. True"])
          apply (rule attempts_selectTrack [OF assms])
         apply (intro runsWithin_bnd runsWithin_whenever runsWithin_perform runsWithin_forEach
                 runsWithin_selectTrack runsWithin_seek; simp add: bestEffort_def)+
  done

lemma restore_attempts_seek:
  assumes "seekDue (RelTime (positionInfo snapshot)) (TrackDuration (positionInfo snapshot))"
  shows "attempts (Seek coordinator (the (RelTime (positionInfo snapshot))))
           (restoreAfterNotification env (coordinator # others) opts snapshot)"
  unfolding restoreAfterNotification_def list.case
  apply (rule attempts_later [where Q = "\<lambda>c. True" and P = "\<lambda>c. True"])
    apply (rule attempts_later [where Q = "\<lambda>c. True" and P = "\<lambda>c. True"])
      apply (rule attempts_later [where Q = "\<lambda>c. True" and P = "\<lambda>c. True"])
        apply (rule attempts_later [where Q = "\<lambda>c. True" and P = "\<lambda>c. True"])
          apply (rule attempts_first [where Q = "\<lambda>c. True" and P = "\<lambda>c. True"])
            apply (rule attempts_seek [OF assms])
           apply (intro runsWithin_bnd runsWithin_whenever runsWithin_perform runsWithin_forEach
                   runsWithin_selectTrack runsWithin_seek; simp add: bestEffort_def)+
  done

text \<open>
  The calls of the restore phase of a notification, for every snapshot and whatever the
  captured content URI is: when it completes, it has attempted the track selection
  whenever the captured track number and track count are above 1, and the seek whenever a
  relative time was captured and the track duration is not \<open>0:00:00\<close>, and it attempts
  them in no other case. A failure of either is swallowed: a restore phase in which only
  they failed completes. \<open>play\<close> is issued only if the device was playing before.
\<close>

lemma restoreAfterNotification_calls:
  assumes run: "restoreAfterNotification env (coordinator # others) opts snapshot s = (r, s')"
  shows "(r = Inr () \<and> trackDue (Track (positionInfo snapshot)) (NrTracks (mediaInfo snapshot))
            \<longrightarrow> (\<exists>ok. (SelectTrack coordinator (Track (positionInfo snapshot)), ok)
                        \<in> set (issued s s'))) \<and>
         (r = Inr () \<and>
          seekDue (RelTime (positionInfo snapshot)) (TrackDuration (positionInfo snapshot))
            \<longrightarrow> (\<exists>ok. (Seek coordinator (the (RelTime (positionInfo snapshot))), ok)
                        \<in> set (issued s s'))) \<and>
         (\<forall>p t ok. (SelectTrack p t, ok) \<in> set (issued s s') \<longrightarrow>
            trackDue (Track (positionInfo snapshot)) (NrTracks (mediaInfo snapshot))) \<and>
         (\<forall>p t ok. (Seek p t, ok) \<in> set (issued s s') \<longrightarrow>
            seekDue (RelTime (positionInfo snapshot)) (TrackDuration (positionInfo snapshot))) \<and>
         ((\<forall>entry \<in> set (issued s s'). snd entry \<or> bestEffort (fst entry)) \<longrightarrow> r = Inr ()) \<and>
         (\<forall>p ok. (Play p, ok) \<in> set (issued s s') \<longrightarrow> wasPlaying snapshot)"
proof -
  from restore_within [of coordinator snapshot env others opts] run obtain log where
    log: "snd s' = snd s @ log" and
    within: "\<forall>e \<in> set log. restoreCalls coordinator snapshot (fst e)" and
    res: "(case r of
              Inr x \<Rightarrow> (\<forall>e \<in> set log. snd e \<or> bestEffort (fst e))
            | Inl err \<Rightarrow> err = Rejected \<and> (\<exists>c. (c, False) \<in> set log \<and> \<not> bestEffort c))"
    unfolding runsWithin_def by blast
  note iss = issued_append [OF log]
  have track: "r = Inr () \<and> trackDue (Track (positionInfo snapshot)) (NrTracks (mediaInfo snapshot))
            \<longrightarrow> (\<exists>ok. (SelectTrack coordinator (Track (positionInfo snapshot)), ok)
                        \<in> set (issued s s'))"
    using restore_attempts_track [of snapshot coordinator env others opts] run
    unfolding attempts_def by blast
  have seek: "r = Inr () \<and>
          seekDue (RelTime (positionInfo snapshot)) (TrackDuration (positionInfo snapshot))
            \<longrightarrow> (\<exists>ok. (Seek coordinator (the (RelTime (positionInfo snapshot))), ok)
                        \<in> set (issued s s'))"
    using restore_attempts_seek [of snapshot coordinator env others opts] run
    unfolding attempts_def by blast
  have only_track: "\<forall>p t ok. (SelectTrack p t, ok) \<in> set (issued s s') \<longrightarrow>
            trackDue (Track (positionInfo snapshot)) (NrTracks (mediaInfo snapshot))"
    using within by (fastforce simp: iss restoreCalls_def)
  have only_seek: "\<forall>p t ok. (Seek p t, ok) \<in> set (issued s s') \<longrightarrow>
            seekDue (RelTime (positionInfo snapshot)) (TrackDuration (positionInfo snapshot))"
    using within by (fastforce simp: iss restoreCalls_def)
  have swallow: "(\<forall>entry \<in> set (issued s s'). snd entry \<or> bestEffort (fst entry)) \<longrightarrow> r = Inr ()"
    using res by (cases r) (fastforce simp: iss)+
  have play: "\<forall>p ok. (Play p, ok) \<in> set (issued s s') \<longrightarrow> wasPlaying snapshot"
    using within by (fastforce simp: iss restoreCalls_def)
  from track seek only_track only_seek swallow play show ?thesis
    by blast
qed

lemma vli_marker: "includes_str ''x-sonos-vli:RINCON_A:2,spotify:e934'' ''x-sonos-vli''"
  by (simp add: includes_str_def)

lemma ding_gate: "\<not> includes_str ''http://192.168.1.9/ding.mp3'' ''x-sonos-vli''"
  by (simp add: includes_str_def)

lemma ding_encoded: "encodeXml ''http://192.168.1.9/ding.mp3'' = ''http://192.168.1.9/ding.mp3''"
  by (simp add: xmlSpecial_def apostrophe_def doubleQuote_def)

lemma snapshot_run:
  "takeSnapshot notifyPlayer [livingRoom] dingOptions ((), log)
     = (Inr vliSnapshot, ((), log @ snapshotLog))"
  by (simp add: takeSnapshot_def dingOptions_def vliSnapshot_def snapshotLog_def isPlaying_def
      getCurrentState_def getMediaInfo_def getPositionInfo_def getVolume_def
      bnd_def request_def ret_def)

lemma setUri_action_run:
  "executeActionV6 notifyPlayer exampleTemplates actionParse ''http://192.168.1.2:1400''
     ''/MediaRenderer/AVTransport/Control'' ''SetAVTransportURI''
     (JObj [(''InstanceID'', JNum 0),
            (''CurrentURI'', JStr ''http://192.168.1.9/ding.mp3''),
            (''CurrentURIMetaData'', JStr [])]) ((), log)
   = (Inr (JBool True),
      ((), log @ [(SendToPlayerV1 ''http://192.168.1.2:1400''
                     ''/MediaRenderer/AVTransport/Control'' (Some ''AVTransport'')
                     ''SetAVTransportURI''
                     (JObj [(''InstanceID'', JNum 0),
                            (''CurrentURI'', JStr ''http://192.168.1.9/ding.mp3''),
                            (''CurrentURIMetaData'', JStr [])]), True)]))"
  by (simp add: executeActionV6_def exampleTemplates_def avTransportActions_def
      serviceNameOf_avTransport Let_def bnd_def sendToPlayerV1_def request_def
      ret_def checkResponse_def decodeResponse_def isValidProperty_def responseKey_def
      getNestedProperty_def expectedResponseValue_def)

lemma play_action_run:
  "executeActionV6 notifyPlayer exampleTemplates actionParse ''http://192.168.1.2:1400''
     ''/MediaRenderer/AVTransport/Control'' ''Play''
     (JObj [(''InstanceID'', JNum 0), (''Speed'', JNum 1)]) ((), log)
   = (Inr (JBool True),
      ((), log @ [(SendToPlayerV1 ''http://192.168.1.2:1400''
                     ''/MediaRenderer/AVTransport/Control'' (Some ''AVTransport'')
                     ''Play''
                     (JObj [(''InstanceID'', JNum 0), (''Speed'', JNum 1)]), True)]))"
  by (simp add: executeActionV6_def exampleTemplates_def avTransportActions_def
      serviceNameOf_avTransport Let_def bnd_def sendToPlayerV1_def request_def
      ret_def checkResponse_def decodeResponse_def isValidProperty_def responseKey_def
      getNestedProperty_def expectedResponseValue_def)

lemma start_run:
  "startNotification notifyPlayer exampleLibrary [livingRoom] dingOptions ((), log)
     = (Inr (), ((), log @ startLog))"
  apply (simp only: startNotification_def list.case)
  apply (simp only: exampleLibrary_def dingOptions_def library.simps options.simps option.case)
  apply (simp only: Let_def list.simps if_False if_True simp_thms ding_encoded)
  apply (simp only: livingRoom_def playerPlus.simps setUri_action_run bnd_def prod.case sum.case)
  apply (simp add: whenever_def perform_def bnd_def request_def ret_def play_action_run startLog_def livingRoom_def)
  done


lemma wait_run:
  "waitForEnd notifyPlayer exampleLibrary [livingRoom] dingOptions ((), log)
     = (Inr (), ((), log @ [(SetTimeout 5000, True)]))"
  by (simp add: waitForEnd_def exampleLibrary_def dingOptions_def perform_def bnd_def
      request_def ret_def)

lemma restore_run:
  "restoreAfterNotification notifyPlayer [livingRoom] dingOptions vliSnapshot ((), log)
     = (Inr (), ((), log @ vliRestoreLog))"
  by (simp add: restoreAfterNotification_def dingOptions_def vliSnapshot_def vliRestoreLog_def
      ding_gate selectTrackBestEffort_def seekBestEffort_def whenever_def catchIgnore_def
      perform_def bnd_def request_def ret_def)

text \<open>
  C2. For a group notification whose captured content URI contains the marker
  \<open>x-sonos-vli\<close>, the restore phase is to skip the URI, the track index and the relative
  position and to leave playback alone. Both marker tests of the code read the URI of the
  notification (\<open>options.uri\<close>) instead of the captured one. Here the coordinator was
  playing the third of ten tracks of such a source, at 0:01:05, and the notification is an
  ordinary http URI: the restore phase reapplies the captured URI, selects track 3, seeks
  to 0:01:05 and issues \<open>play\<close>.
\<close>

theorem playGroupNotification_vli_restore:
  "takeSnapshot notifyPlayer [livingRoom] dingOptions ((), [])
     = (Inr vliSnapshot, ((), snapshotLog)) \<and>
   CurrentURI (mediaInfo vliSnapshot) = ''x-sonos-vli:RINCON_A:2,spotify:e934'' \<and>
   includes_str (CurrentURI (mediaInfo vliSnapshot)) ''x-sonos-vli'' \<and>
   \<not> includes_str (uri dingOptions) ''x-sonos-vli'' \<and>
   playGroupNotification notifyPlayer exampleLibrary [livingRoom] dingOptions ((), [])
     = (Inr (),
        ((), snapshotLog @ startLog @ [(SetTimeout 5000, True)] @
             [(SetVolume livingRoom (Some 20), True),
              (SetAVTransportURI livingRoom ''x-sonos-vli:RINCON_A:2,spotify:e934'' [] True,
               True),
              (SelectTrack livingRoom 3, True),
              (Seek livingRoom ''0:01:05'', True),
              (Play livingRoom, True)]))"
proof -
  have "playGroupNotification notifyPlayer exampleLibrary [livingRoom] dingOptions ((), [])
     = (Inr (), ((), snapshotLog @ startLog @ [(SetTimeout 5000, True)] @ vliRestoreLog))"
    by (simp add: playGroupNotification_def bnd_def snapshot_run start_run wait_run restore_run)
  moreover have "\<not> includes_str (uri dingOptions) ''x-sonos-vli''"
    by (simp add: dingOptions_def ding_gate)
  moreover have "takeSnapshot notifyPlayer [livingRoom] dingOptions ((), [])
     = (Inr vliSnapshot, ((), snapshotLog))"
    using snapshot_run [of "[]"] by simp
  moreover have "CurrentURI (mediaInfo vliSnapshot) = ''x-sonos-vli:RINCON_A:2,spotify:e934''"
    by (simp add: vliSnapshot_def)
  ultimately show ?thesis
    using vli_marker by (simp add: vliRestoreLog_def)
qed

end
